theory Spec2Isabelle
  imports Main
begin

section \<open>qbit\_manage: run orchestration and scheduling\<close>

text \<open>
  A shallow embedding of \<^verbatim>\<open>qbit_manage.py\<close>: the start-up validation of the schedule
  argument, one run (\<^verbatim>\<open>start\<close>), the loop over the configuration files
  (\<^verbatim>\<open>start_loop\<close>), the two rearming functions and the polling loop of
  \<^verbatim>\<open>__main__\<close>.  The maintenance stages, the configuration loader, the web hooks,
  \<^verbatim>\<open>croniter\<close> and the termination flag live outside this file of the program: what
  they return is a parameter of the model.
\<close>

subsection \<open>Rendering an integer, as an f-string does\<close>

definition digit_char :: "nat \<Rightarrow> char" where
  "digit_char d = char_of (48 + d)"

function str_nat :: "nat \<Rightarrow> string" where
  "str_nat n = (if n < 10 then [digit_char n] else str_nat (n div 10) @ [digit_char (n mod 10)])"
  by pat_completeness auto
termination
  by (relation "measure (\<lambda>n. n)") auto

declare str_nat.simps [simp del]

definition str_int :: "int \<Rightarrow> string" where
  "str_int i = (if i < 0 then CHR ''-'' # str_nat (nat (- i)) else str_nat (nat i))"

subsection \<open>The counters of a run\<close>

text \<open>
  \<^verbatim>\<open>stats\<close> is a dictionary with the seventeen keys below, all present from the start
  of a run; the keys are a datatype here, the dictionary a total function.
\<close>

datatype counter =
    Added | Deleted | Deleted_contents | Resumed | Rechecked | Orphaned
  | Recycle_emptied | Orphaned_emptied | Tagged | Categorized | Rem_unreg
  | Tagged_tracker_error | Untagged_tracker_error | Tagged_noHL | Untagged_noHL
  | Updated_share_limits | Cleaned_share_limits

type_synonym stats = "counter \<Rightarrow> int"

definition zero_stats :: stats where
  "zero_stats = (\<lambda>_. 0)"

text \<open>\<^verbatim>\<open>stats[k] += v\<close>\<close>

definition add_stat :: "counter \<Rightarrow> int \<Rightarrow> stats \<Rightarrow> stats" where
  "add_stat k v s = s(k := s k + v)"

subsection \<open>Configuration and what the stages return\<close>

record commands =
  cat_update :: bool
  tag_update :: bool
  rem_unregistered :: bool
  tag_tracker_error :: bool
  recheck :: bool
  tag_nohardlinks :: bool
  share_limits :: bool
  rem_orphaned :: bool
  skip_cleanup :: bool

text \<open>
  (\<^verbatim>\<open>skip_cleanup\<close> is handed to \<^verbatim>\<open>Config\<close> with the other commands; \<^verbatim>\<open>start\<close>
  does not read it.)

  The part of a \<^verbatim>\<open>Config\<close> object that \<^verbatim>\<open>start\<close> reads: the enabled commands, the
  truth value of the client handle \<^verbatim>\<open>cfg.qbt\<close>, and the two tag names that appear in
  summary lines.
\<close>

record config =
  cfg_commands :: commands
  qbt :: bool
  tracker_error_tag :: string
  nohardlinks_tag :: string

text \<open>
  The counts that each collaborator returns when it is invoked in a run.  The stages are
  classes of \<^verbatim>\<open>modules.core\<close>; \<^verbatim>\<open>start\<close> reads only these attributes of them.
\<close>

record stage_results =
  Category_stats :: int
  Tags_stats :: int
  rem_unreg_stats_deleted :: int
  rem_unreg_stats_deleted_contents :: int
  rem_unreg_stats_tagged :: int
  rem_unreg_stats_untagged :: int
  recheck_stats_resumed :: int
  recheck_stats_rechecked :: int
  no_hardlinks_stats_tagged :: int
  no_hardlinks_stats_untagged :: int
  share_limits_stats_tagged :: int
  share_limits_stats_deleted :: int
  share_limits_stats_deleted_contents :: int
  RemoveOrphaned_stats :: int
  cleanup_recycle_bin :: int
  cleanup_orphaned_data :: int

text \<open>The collaborators that a run invokes, in the order of invocation.\<close>

datatype call =
    Category | Tags | RemoveUnregistered | ReCheck | TagNoHardLinks | ShareLimits
  | RemoveOrphaned | Cleanup_dirs string

record run_state =
  rs_stats :: stats
  rs_calls :: "call list"

definition invoke :: "call \<Rightarrow> run_state \<Rightarrow> run_state" where
  "invoke c st = st\<lparr>rs_calls := rs_calls st @ [c]\<rparr>"

definition bump :: "counter \<Rightarrow> int \<Rightarrow> run_state \<Rightarrow> run_state" where
  "bump k v st = st\<lparr>rs_stats := add_stat k v (rs_stats st)\<rparr>"

subsection \<open>The pipeline of \<^verbatim>\<open>start\<close>\<close>

text \<open>One definition for each commented block of the source, in the source's order.\<close>

definition set_category :: "config \<Rightarrow> stage_results \<Rightarrow> run_state \<Rightarrow> run_state" where
  "set_category cfg r st =
     (if cat_update (cfg_commands cfg)
      then bump Categorized (Category_stats r) (invoke Category st)
      else st)"

definition set_tags :: "config \<Rightarrow> stage_results \<Rightarrow> run_state \<Rightarrow> run_state" where
  "set_tags cfg r st =
     (if tag_update (cfg_commands cfg)
      then bump Tagged (Tags_stats r) (invoke Tags st)
      else st)"

definition remove_unregistered :: "config \<Rightarrow> stage_results \<Rightarrow> run_state \<Rightarrow> run_state" where
  "remove_unregistered cfg r st =
     (if rem_unregistered (cfg_commands cfg) \<or> tag_tracker_error (cfg_commands cfg)
      then
        (bump Tagged (rem_unreg_stats_tagged r)
        (bump Untagged_tracker_error (rem_unreg_stats_untagged r)
        (bump Tagged_tracker_error (rem_unreg_stats_tagged r)
        (bump Deleted_contents (rem_unreg_stats_deleted_contents r)
        (bump Deleted (rem_unreg_stats_deleted r)
        (bump Rem_unreg (rem_unreg_stats_deleted r + rem_unreg_stats_deleted_contents r)
        (invoke RemoveUnregistered st)))))))
      else st)"

definition recheck_torrents :: "config \<Rightarrow> stage_results \<Rightarrow> run_state \<Rightarrow> run_state" where
  "recheck_torrents cfg r st =
     (if recheck (cfg_commands cfg)
      then
        (bump Rechecked (recheck_stats_rechecked r)
        (bump Resumed (recheck_stats_resumed r)
        (invoke ReCheck st)))
      else st)"

definition tag_no_hardlinks :: "config \<Rightarrow> stage_results \<Rightarrow> run_state \<Rightarrow> run_state" where
  "tag_no_hardlinks cfg r st =
     (if tag_nohardlinks (cfg_commands cfg)
      then
        (bump Untagged_noHL (no_hardlinks_stats_untagged r)
        (bump Tagged_noHL (no_hardlinks_stats_tagged r)
        (bump Tagged (no_hardlinks_stats_tagged r)
        (invoke TagNoHardLinks st))))
      else st)"

definition set_share_limits :: "config \<Rightarrow> stage_results \<Rightarrow> run_state \<Rightarrow> run_state" where
  "set_share_limits cfg r st =
     (if share_limits (cfg_commands cfg)
      then
        (bump Cleaned_share_limits
           (share_limits_stats_deleted r + share_limits_stats_deleted_contents r)
        (bump Deleted_contents (share_limits_stats_deleted_contents r)
        (bump Deleted (share_limits_stats_deleted r)
        (bump Updated_share_limits (share_limits_stats_tagged r)
        (bump Tagged (share_limits_stats_tagged r)
        (invoke ShareLimits st))))))
      else st)"

definition remove_orphaned :: "config \<Rightarrow> stage_results \<Rightarrow> run_state \<Rightarrow> run_state" where
  "remove_orphaned cfg r st =
     (if rem_orphaned (cfg_commands cfg)
      then bump Orphaned (RemoveOrphaned_stats r) (invoke RemoveOrphaned st)
      else st)"

definition empty_recycle_bin :: "stage_results \<Rightarrow> run_state \<Rightarrow> run_state" where
  "empty_recycle_bin r st =
     bump Recycle_emptied (cleanup_recycle_bin r) (invoke (Cleanup_dirs ''Recycle Bin'') st)"

definition empty_orphaned_directory :: "stage_results \<Rightarrow> run_state \<Rightarrow> run_state" where
  "empty_orphaned_directory r st =
     bump Orphaned_emptied (cleanup_orphaned_data r) (invoke (Cleanup_dirs ''Orphaned Data'') st)"

text \<open>
  Lines 436 to 538 of \<^verbatim>\<open>start\<close> after a successful \<^verbatim>\<open>Config(...)\<close>: the counters are
  reset, and the stages run only when the client handle is true.
\<close>

definition fresh_run :: run_state where
  "fresh_run = \<lparr>rs_stats = zero_stats, rs_calls = []\<rparr>"

definition run_stages :: "config \<Rightarrow> stage_results \<Rightarrow> run_state" where
  "run_stages cfg r =
     (if qbt cfg
      then
        (empty_orphaned_directory r
        (empty_recycle_bin r
        (remove_orphaned cfg r
        (set_share_limits cfg r
        (tag_no_hardlinks cfg r
        (recheck_torrents cfg r
        (remove_unregistered cfg r
        (set_tags cfg r
        (set_category cfg r fresh_run)))))))))
      else fresh_run)"

subsection \<open>Which stages a run invokes\<close>

definition nine_stages :: "call list" where
  "nine_stages =
     [Category, Tags, RemoveUnregistered, ReCheck, TagNoHardLinks, ShareLimits,
      RemoveOrphaned, Cleanup_dirs ''Recycle Bin'', Cleanup_dirs ''Orphaned Data'']"

text \<open>The test that guards each call in \<^verbatim>\<open>start\<close>; the two clean-ups have none.\<close>

fun guard :: "config \<Rightarrow> call \<Rightarrow> bool" where
  "guard cfg Category = cat_update (cfg_commands cfg)"
| "guard cfg Tags = tag_update (cfg_commands cfg)"
| "guard cfg RemoveUnregistered =
     (rem_unregistered (cfg_commands cfg) \<or> tag_tracker_error (cfg_commands cfg))"
| "guard cfg ReCheck = recheck (cfg_commands cfg)"
| "guard cfg TagNoHardLinks = tag_nohardlinks (cfg_commands cfg)"
| "guard cfg ShareLimits = share_limits (cfg_commands cfg)"
| "guard cfg RemoveOrphaned = rem_orphaned (cfg_commands cfg)"
| "guard cfg (Cleanup_dirs location) = True"

text \<open>
  The capability of each stage as the specification has it, every stage with one of its
  own: written from the specification, for comparison with \<open>guard\<close>.  The capability of
  the two clean-ups is that the clean-up is not skipped.
\<close>

fun spec_enabled :: "config \<Rightarrow> call \<Rightarrow> bool" where
  "spec_enabled cfg (Cleanup_dirs location) = (\<not> skip_cleanup (cfg_commands cfg))"
| "spec_enabled cfg c = guard cfg c"


subsection \<open>The summary of \<^verbatim>\<open>start\<close>\<close>

text \<open>
  Lines 540 to 573.  They are reached only after \<^verbatim>\<open>Config(...)\<close> has succeeded (the
  handler of its failure returns), so \<^verbatim>\<open>cfg\<close> is a configuration there.
\<close>

definition stats_summary :: "config \<Rightarrow> stats \<Rightarrow> string list" where
  "stats_summary cfg stats =
    (let l = [];
         l = (if stats Categorized > 0
              then l @ [''Total Torrents Categorized: '' @ str_int (stats Categorized)] else l);
         l = (if stats Tagged > 0
              then l @ [''Total Torrents Tagged: '' @ str_int (stats Tagged)] else l);
         l = (if stats Rem_unreg > 0
              then l @ [''Total Unregistered Torrents Removed: '' @ str_int (stats Rem_unreg)]
              else l);
         l = (if stats Tagged_tracker_error > 0
              then l @ [''Total '' @ tracker_error_tag cfg @ '' Torrents Tagged: ''
                          @ str_int (stats Tagged_tracker_error)]
              else l);
         l = (if stats Untagged_tracker_error > 0
              then l @ [''Total '' @ tracker_error_tag cfg @ '' Torrents untagged: ''
                          @ str_int (stats Untagged_tracker_error)]
              else l);
         l = (if stats Added > 0
              then l @ [''Total Torrents Added: '' @ str_int (stats Added)] else l);
         l = (if stats Resumed > 0
              then l @ [''Total Torrents Resumed: '' @ str_int (stats Resumed)] else l);
         l = (if stats Rechecked > 0
              then l @ [''Total Torrents Rechecked: '' @ str_int (stats Rechecked)] else l);
         l = (if stats Deleted > 0
              then l @ [''Total Torrents Deleted: '' @ str_int (stats Deleted)] else l);
         l = (if stats Deleted_contents > 0
              then l @ [''Total Torrents + Contents Deleted : ''
                          @ str_int (stats Deleted_contents)]
              else l);
         l = (if stats Orphaned > 0
              then l @ [''Total Orphaned Files: '' @ str_int (stats Orphaned)] else l);
         l = (if stats Tagged_noHL > 0
              then l @ [''Total '' @ nohardlinks_tag cfg @ '' Torrents Tagged: ''
                          @ str_int (stats Tagged_noHL)]
              else l);
         l = (if stats Untagged_noHL > 0
              then l @ [''Total '' @ nohardlinks_tag cfg @ '' Torrents untagged: ''
                          @ str_int (stats Untagged_noHL)]
              else l);
         l = (if stats Updated_share_limits > 0
              then l @ [''Total Share Limits Updated: '' @ str_int (stats Updated_share_limits)]
              else l);
         l = (if stats Cleaned_share_limits > 0
              then l @ [''Total Torrents Removed from Meeting Share Limits: ''
                          @ str_int (stats Cleaned_share_limits)]
              else l);
         l = (if stats Recycle_emptied > 0
              then l @ [''Total Files Deleted from Recycle Bin: ''
                          @ str_int (stats Recycle_emptied)]
              else l);
         l = (if stats Orphaned_emptied > 0
              then l @ [''Total Files Deleted from Orphaned Data: ''
                          @ str_int (stats Orphaned_emptied)]
              else l)
     in l)"

text \<open>
  The action that a summary line names for each counter, so that the line of counter
  \<open>k\<close> reads \<^verbatim>\<open>Total <action>: <count>\<close>.  (The action of the deleted-with-contents
  counter ends in a space: the source puts one before the colon.)
\<close>

fun action :: "config \<Rightarrow> counter \<Rightarrow> string" where
  "action cfg Categorized = ''Torrents Categorized''"
| "action cfg Tagged = ''Torrents Tagged''"
| "action cfg Rem_unreg = ''Unregistered Torrents Removed''"
| "action cfg Tagged_tracker_error = tracker_error_tag cfg @ '' Torrents Tagged''"
| "action cfg Untagged_tracker_error = tracker_error_tag cfg @ '' Torrents untagged''"
| "action cfg Added = ''Torrents Added''"
| "action cfg Resumed = ''Torrents Resumed''"
| "action cfg Rechecked = ''Torrents Rechecked''"
| "action cfg Deleted = ''Torrents Deleted''"
| "action cfg Deleted_contents = ''Torrents + Contents Deleted ''"
| "action cfg Orphaned = ''Orphaned Files''"
| "action cfg Tagged_noHL = nohardlinks_tag cfg @ '' Torrents Tagged''"
| "action cfg Untagged_noHL = nohardlinks_tag cfg @ '' Torrents untagged''"
| "action cfg Updated_share_limits = ''Share Limits Updated''"
| "action cfg Cleaned_share_limits = ''Torrents Removed from Meeting Share Limits''"
| "action cfg Recycle_emptied = ''Files Deleted from Recycle Bin''"
| "action cfg Orphaned_emptied = ''Files Deleted from Orphaned Data''"

definition summary_line :: "config \<Rightarrow> stats \<Rightarrow> counter \<Rightarrow> string" where
  "summary_line cfg stats k = ''Total '' @ action cfg k @ '': '' @ str_int (stats k)"

text \<open>The order in which the source tests the counters.\<close>

definition summary_order :: "counter list" where
  "summary_order =
     [Categorized, Tagged, Rem_unreg, Tagged_tracker_error, Untagged_tracker_error, Added,
      Resumed, Rechecked, Deleted, Deleted_contents, Orphaned, Tagged_noHL, Untagged_noHL,
      Updated_share_limits, Cleaned_share_limits, Recycle_emptied, Orphaned_emptied]"

text \<open>
  The order in which section 3 of the specification lists the counters (categorized,
  tagged, tagged-tracker-error, untagged-tracker-error, unregistered-removed, resumed,
  rechecked, deleted, deleted-with-contents, orphaned-found, tagged-no-hardlinks,
  untagged-no-hardlinks, share-limits-updated, share-limits-cleaned, recycle-bin-emptied,
  orphaned-dir-emptied, added).  It is written from the specification, for comparison
  with \<open>summary_order\<close>.
\<close>

definition spec_counter_order :: "counter list" where
  "spec_counter_order =
     [Categorized, Tagged, Tagged_tracker_error, Untagged_tracker_error, Rem_unreg,
      Resumed, Rechecked, Deleted, Deleted_contents, Orphaned, Tagged_noHL, Untagged_noHL,
      Updated_share_limits, Cleaned_share_limits, Recycle_emptied, Orphaned_emptied, Added]"


subsection \<open>Strings, and \<^verbatim>\<open>int\<close> on a string\<close>

text \<open>
  A string of Python is the list of its code points.  \<open>ascii\<close> gives the string of an
  ASCII literal.
\<close>

type_synonym pystr = "nat list"

definition ascii :: "string \<Rightarrow> pystr" where
  "ascii s = map of_char s"


definition unicode_space :: "nat \<Rightarrow> bool" where
  "unicode_space c =
     ((9 \<le> c \<and> c \<le> 13) \<or> (28 \<le> c \<and> c \<le> 32) \<or> c = 133 \<or> c = 160 \<or> c = 5760
      \<or> (8192 \<le> c \<and> c \<le> 8202) \<or> c = 8232 \<or> c = 8233 \<or> c = 8239 \<or> c = 8287
      \<or> c = 12288)"

definition is_digit :: "nat \<Rightarrow> bool" where
  "is_digit c = (48 \<le> c \<and> c \<le> 57)"









text \<open>The value of \<^verbatim>\<open>sch\<close> after start-up: an \<^verbatim>\<open>int\<close> or the string as given.\<close>

datatype schedule_arg = Minutes int | Cron pystr

text \<open>\<^verbatim>\<open>str(cron_expression)\<close>\<close>

fun str_arg :: "schedule_arg \<Rightarrow> pystr" where
  "str_arg (Minutes n) = ascii (str_int n)"
| "str_arg (Cron s) = s"

text \<open>How the process ends: \<^verbatim>\<open>sys.exit(code)\<close>, or an exception that nothing catches.\<close>

datatype outcome = SysExit int | Uncaught string

text \<open>
  \<^verbatim>\<open>is_valid_cron_syntax\<close>.  The parameter \<open>croniter_ok\<close> says for which strings the
  constructor \<^verbatim>\<open>croniter(s)\<close> returns without \<^verbatim>\<open>ValueError\<close> or \<^verbatim>\<open>KeyError\<close>; the
  cache of the function does not change what it returns.
\<close>

definition is_valid_cron_syntax :: "(pystr \<Rightarrow> bool) \<Rightarrow> schedule_arg \<Rightarrow> bool" where
  "is_valid_cron_syntax croniter_ok cron_expression = croniter_ok (str_arg cron_expression)"

text \<open>
  Modelled from the spec: \<^verbatim>\<open>croniter\<close> is a library outside the program; the
  specification asks for a syntactically valid 5-field cron expression.  This checker
  accepts exactly five fields separated by white space, each made of digits and of the
  characters \<^verbatim>\<open>* / , -\<close>.  It stands for \<open>croniter_ok\<close> in closed examples only.
\<close>

definition is_field_char :: "nat \<Rightarrow> bool" where
  "is_field_char c = (is_digit c \<or> c \<in> set (ascii ''*/,-''))"

fun fields :: "pystr \<Rightarrow> pystr \<Rightarrow> pystr list" where
  "fields cur [] = (if cur = [] then [] else [cur])"
| "fields cur (c # cs) =
     (if unicode_space c then (if cur = [] then fields [] cs else cur # fields [] cs)
      else fields (cur @ [c]) cs)"

definition five_field_cron :: "pystr \<Rightarrow> bool" where
  "five_field_cron s =
     (let fs = fields [] s in length fs = 5 \<and> list_all (list_all is_field_char) fs)"

subsection \<open>Time, the job table and the collaborators\<close>

text \<open>
  A point in time is a number of microseconds, the resolution of \<^verbatim>\<open>datetime\<close>.
\<close>

type_synonym time = int

definition seconds :: "int \<Rightarrow> int" where
  "seconds n = n * 1000000"

definition minutes :: "int \<Rightarrow> int" where
  "minutes n = seconds (60 * n)"

text \<open>
  Time counts from the first of January 1970.  A \<^verbatim>\<open>datetime\<close> lies between the years 1
  and 9999, a \<^verbatim>\<open>timedelta\<close> has at most 999999999 days either way; building a
  \<^verbatim>\<open>timedelta\<close> or adding one to a \<^verbatim>\<open>datetime\<close> beyond that raises
  \<^verbatim>\<open>OverflowError\<close>, here \<open>None\<close>.
\<close>

definition datetime_min :: time where
  "datetime_min = - 62135596800000000"

definition datetime_max :: time where
  "datetime_max = 253402300799999999"

definition timedelta :: "int \<Rightarrow> int option" where
  "timedelta us =
     (let days = us div 86400000000
      in if - 999999999 \<le> days \<and> days \<le> 999999999 then Some us else None)"

definition datetime_add :: "time \<Rightarrow> int \<Rightarrow> time option" where
  "datetime_add t delta =
     (if datetime_min \<le> t + delta \<and> t + delta \<le> datetime_max then Some (t + delta) else None)"

text \<open>
  A job of the \<^verbatim>\<open>schedule\<close> library.  Every job of this program calls
  \<^verbatim>\<open>start_loop\<close>, so a job is its due time and its period.
\<close>

record job =
  job_next_run :: time
  job_period :: int

text \<open>What a call of \<^verbatim>\<open>start\<close> leaves behind: one report for each run.\<close>

record run_report =
  rr_config :: string
  rr_start_time :: time
  rr_end_time :: time
  rr_loaded :: bool
  rr_stats :: stats
  rr_calls :: "call list"
  rr_summary :: "string list"
  rr_next_run :: "time option"
  rr_notified :: bool

text \<open>
  The state that the program changes: the clock, the job table of \<^verbatim>\<open>schedule\<close>, and
  the runs made so far.  Time passes only where the model says so: while a run works and
  in \<^verbatim>\<open>time.sleep\<close>.
\<close>

record world =
  now :: time
  jobs :: "job list"
  runs :: "run_report list"

text \<open>
  The collaborators, as parameters.  For a configuration file and the time at which its
  run starts: \<open>Config\<close> gives the configuration (\<open>None\<close> when \<^verbatim>\<open>Config(...)\<close> raises),
  \<open>stages\<close> what the stages return, \<open>took\<close> how long the run works.
  \<open>croniter_ok\<close> is as above;
  \<open>croniter_next expr base\<close> is \<^verbatim>\<open>croniter(expr, base).get_next(datetime)\<close>, a
  \<^verbatim>\<open>datetime\<close>, or \<open>None\<close> when it raises.  \<open>sleep_lag\<close> is the time by which a sleep
  that starts at the given time overruns.  \<open>kill_at\<close> is the time at which a termination
  request arrives, if one does.  \<open>unicode_decimal\<close> and \<open>int_max_str_digits\<close> are the
  interpreter's table of decimal digits and its limit on the digits of an integer, the
  two parameters of \<open>py_int\<close>.
\<close>

record env =
  Config :: "string \<Rightarrow> time \<Rightarrow> config option"
  stages :: "string \<Rightarrow> time \<Rightarrow> stage_results"
  took :: "string \<Rightarrow> time \<Rightarrow> nat"
  croniter_ok :: "pystr \<Rightarrow> bool"
  croniter_next :: "pystr \<Rightarrow> time \<Rightarrow> time option"
  sleep_lag :: "time \<Rightarrow> nat"
  kill_at :: "time option"
  unicode_decimal :: "nat \<Rightarrow> nat option"
  int_max_str_digits :: nat

text \<open>
  Modelled from the spec: \<^verbatim>\<open>GracefulKiller\<close> is defined in \<^verbatim>\<open>modules.util\<close>.  Its flag
  is a two-state machine: it turns true when the termination request arrives and stays
  true.
\<close>

definition kill_now :: "env \<Rightarrow> world \<Rightarrow> bool" where
  "kill_now e w = (case kill_at e of None \<Rightarrow> False | Some k \<Rightarrow> k \<le> now w)"

text \<open>
  \<^verbatim>\<open>time.sleep(secs)\<close>: a negative argument raises \<^verbatim>\<open>ValueError\<close>; otherwise at
  least that much time passes.
\<close>

definition sleep :: "env \<Rightarrow> int \<Rightarrow> world \<Rightarrow> (outcome \<times> world) + world" where
  "sleep e secs w =
     (if secs < 0 then Inl (Uncaught ''ValueError'', w)
      else Inr (w\<lparr>now := now w + seconds secs + int (sleep_lag e (now w))\<rparr>))"

subsection \<open>Start-up: the schedule and start-up delay arguments\<close>




text \<open>
  The arguments after start-up (\<^verbatim>\<open>run\<close>, \<^verbatim>\<open>sch\<close>, \<^verbatim>\<open>startupDelay\<close>,
  \<^verbatim>\<open>config_files\<close>).
\<close>

record args =
  run :: bool
  sch :: schedule_arg
  startupDelay :: int
  config_files :: "string list"

subsection \<open>Rearming\<close>

text \<open>
  \<^verbatim>\<open>calc_next_run\<close>, without the text that it formats: the entry \<^verbatim>\<open>next_run\<close> of the
  dictionary it returns.
\<close>

definition calc_next_run :: "args \<Rightarrow> time \<Rightarrow> time option" where
  "calc_next_run a next_run_time = (if \<not> run a then Some next_run_time else None)"

text \<open>
  \<^verbatim>\<open>schedule_from_cron\<close>.  \<^verbatim>\<open>schedule.clear()\<close> empties the job table;
  \<^verbatim>\<open>schedule.every(delay).seconds.do(start_loop)\<close> adds one job, due \<open>delay\<close> after the
  present time.  When \<^verbatim>\<open>sch\<close> is an \<^verbatim>\<open>int\<close>, \<^verbatim>\<open>croniter\<close> cannot take it as an
  expression, and any exception there ends the process with code 1.
\<close>

definition schedule_from_cron ::
  "env \<Rightarrow> schedule_arg \<Rightarrow> world \<Rightarrow> (outcome \<times> world) + (world \<times> time)" where
  "schedule_from_cron e cron_expression w =
     (let w = w\<lparr>jobs := []\<rparr>;
          base_time = now w
      in case cron_expression of
           Minutes _ \<Rightarrow> Inl (SysExit 1, w)
         | Cron expr \<Rightarrow>
             (case croniter_next e expr base_time of
                None \<Rightarrow> Inl (SysExit 1, w)
              | Some next_run_time \<Rightarrow>
                  (let delay = next_run_time - base_time;
                       w = w\<lparr>jobs := jobs w @ [\<lparr>job_next_run = now w + delay, job_period = delay\<rparr>]\<rparr>
                   in Inr (w, next_run_time))))"

text \<open>
  \<^verbatim>\<open>schedule_every_x_minutes\<close>.  \<^verbatim>\<open>schedule.every(min).minutes.do(start_loop)\<close> builds
  the period \<^verbatim>\<open>timedelta(minutes=min)\<close> and adds one job, due at the present time plus
  the period; the function then computes the same sum for itself.
\<close>

definition schedule_every_x_minutes ::
  "int \<Rightarrow> world \<Rightarrow> (outcome \<times> world) + (world \<times> time)" where
  "schedule_every_x_minutes m w =
     (let w = w\<lparr>jobs := []\<rparr>
      in case timedelta (minutes m) of
           None \<Rightarrow> Inl (Uncaught ''OverflowError'', w)
         | Some period \<Rightarrow>
             (case datetime_add (now w) period of
                None \<Rightarrow> Inl (Uncaught ''OverflowError'', w)
              | Some due \<Rightarrow>
                  (let w = w\<lparr>jobs := jobs w @ [\<lparr>job_next_run = due, job_period = period\<rparr>]\<rparr>
                   in case timedelta (minutes m) of
                        None \<Rightarrow> Inl (Uncaught ''OverflowError'', w)
                      | Some delta \<Rightarrow>
                          (case datetime_add (now w) delta of
                             None \<Rightarrow> Inl (Uncaught ''OverflowError'', w)
                           | Some next_run_time \<Rightarrow> Inr (w, next_run_time)))))"

text \<open>
  The rearming in \<^verbatim>\<open>finished_run\<close>, and the same choice at the start of
  \<^verbatim>\<open>__main__\<close>: in the branch of the interval, \<^verbatim>\<open>delta = timedelta(minutes=sch)\<close>
  raises \<^verbatim>\<open>TypeError\<close> when \<^verbatim>\<open>sch\<close> is a string and \<^verbatim>\<open>OverflowError\<close> when the
  interval is too long.  (\<^verbatim>\<open>precisedelta\<close>, which formats \<^verbatim>\<open>delta\<close> for the log, is
  left out.)
\<close>

definition rearm :: "args \<Rightarrow> env \<Rightarrow> world \<Rightarrow> (outcome \<times> world) + (world \<times> time)" where
  "rearm a e w =
     (if is_valid_cron_syntax (croniter_ok e) (sch a) then schedule_from_cron e (sch a) w
      else
        (case sch a of
           Minutes m \<Rightarrow>
             (case timedelta (minutes m) of
                None \<Rightarrow> Inl (Uncaught ''OverflowError'', w)
              | Some delta \<Rightarrow> schedule_every_x_minutes m w)
         | Cron _ \<Rightarrow> Inl (Uncaught ''TypeError'', w)))"

text \<open>
  \<^verbatim>\<open>finished_run\<close>, without the text of the body: the world after rearming, the end
  time and the next run.
\<close>

definition finished_run ::
  "args \<Rightarrow> env \<Rightarrow> world \<Rightarrow> (outcome \<times> world) + (world \<times> time \<times> time option)" where
  "finished_run a e w =
     (let end_time = now w
      in case (if \<not> run a then rearm a e w else Inr (w, now w)) of
           Inl x \<Rightarrow> Inl x
         | Inr (w, next_run_time) \<Rightarrow> Inr (w, end_time, calc_next_run a next_run_time))"

subsection \<open>One run, and the loop over the configuration files\<close>

text \<open>
  \<^verbatim>\<open>start\<close>.  The run is reported in \<open>runs\<close> when \<^verbatim>\<open>start\<close> returns.  The web hooks
  are called after \<^verbatim>\<open>finished_run\<close>; \<^verbatim>\<open>Failed\<close> is caught and logged there, so the
  report says that they were called whether or not they failed.
\<close>

definition start :: "args \<Rightarrow> env \<Rightarrow> string \<Rightarrow> world \<Rightarrow> (outcome \<times> world) + world" where
  "start a e config_file w =
     (let start_time = now w
      in case Config e config_file start_time of
           None \<Rightarrow>
             (let w = w\<lparr>now := now w + int (took e config_file start_time)\<rparr>
              in case finished_run a e w of
                   Inl x \<Rightarrow> Inl x
                 | Inr (w, end_time, next_run) \<Rightarrow>
                     Inr (w\<lparr>runs := runs w @
                       [\<lparr>rr_config = config_file, rr_start_time = start_time,
                         rr_end_time = end_time, rr_loaded = False, rr_stats = zero_stats,
                         rr_calls = [], rr_summary = [], rr_next_run = next_run,
                         rr_notified = False\<rparr>]\<rparr>))
         | Some cfg \<Rightarrow>
             (let st = run_stages cfg (stages e config_file start_time);
                  summary = stats_summary cfg (rs_stats st);
                  w = w\<lparr>now := now w + int (took e config_file start_time)\<rparr>
              in case finished_run a e w of
                   Inl x \<Rightarrow> Inl x
                 | Inr (w, end_time, next_run) \<Rightarrow>
                     Inr (w\<lparr>runs := runs w @
                       [\<lparr>rr_config = config_file, rr_start_time = start_time,
                         rr_end_time = end_time, rr_loaded = True, rr_stats = rs_stats st,
                         rr_calls = rs_calls st, rr_summary = summary,
                         rr_next_run = next_run, rr_notified = True\<rparr>]\<rparr>)))"

text \<open>The \<^verbatim>\<open>for\<close> loop of \<^verbatim>\<open>start_loop\<close>.\<close>

fun start_each :: "args \<Rightarrow> env \<Rightarrow> string list \<Rightarrow> world \<Rightarrow> (outcome \<times> world) + world" where
  "start_each a e [] w = Inr w"
| "start_each a e (config_file # rest) w =
     (case start a e config_file w of
        Inl x \<Rightarrow> Inl x
      | Inr w \<Rightarrow> start_each a e rest w)"

text \<open>
  \<^verbatim>\<open>start_loop\<close>.  Its argument \<^verbatim>\<open>first_run\<close> decides only whether the logo is
  printed; the handlers of the logger are left out.
\<close>

definition start_loop :: "args \<Rightarrow> env \<Rightarrow> world \<Rightarrow> (outcome \<times> world) + world" where
  "start_loop a e w =
     (if length (config_files a) = 1 then start a e (config_files a ! 0) w
      else start_each a e (config_files a) w)"

subsection \<open>The polling loop of \<^verbatim>\<open>__main__\<close>\<close>

text \<open>
  \<^verbatim>\<open>schedule.run_pending()\<close>: the jobs that are due when it is called run in the order
  of their due times.  Running a job calls \<^verbatim>\<open>start_loop\<close>, which in scheduled mode
  empties the table and adds a new job each time a run finishes; the library then
  reschedules the job it ran, which is in the table no more.
\<close>

fun run_jobs :: "args \<Rightarrow> env \<Rightarrow> job list \<Rightarrow> world \<Rightarrow> (outcome \<times> world) + world" where
  "run_jobs a e [] w = Inr w"
| "run_jobs a e (j # js) w =
     (case start_loop a e w of
        Inl x \<Rightarrow> Inl x
      | Inr w \<Rightarrow> run_jobs a e js w)"

definition run_pending :: "args \<Rightarrow> env \<Rightarrow> world \<Rightarrow> (outcome \<times> world) + world" where
  "run_pending a e w =
     run_jobs a e (sort_key job_next_run (filter (\<lambda>j. job_next_run j \<le> now w) (jobs w))) w"

text \<open>
  The \<^verbatim>\<open>while\<close> loop, lines 682 to 687.  \<^verbatim>\<open>end()\<close> exits with code 0.  The loop runs
  for as long as no termination request arrives, so the model counts the iterations
  left: \<open>None\<close> says that the count ran out.
\<close>

fun poll :: "nat \<Rightarrow> args \<Rightarrow> env \<Rightarrow> world \<Rightarrow> (outcome \<times> world) option" where
  "poll 0 a e w = None"
| "poll (Suc n) a e w =
     (if \<not> kill_now e w then
        (case run_pending a e w of
           Inl x \<Rightarrow> Some x
         | Inr w \<Rightarrow>
             (case sleep e 60 w of
                Inl x \<Rightarrow> Some x
              | Inr w \<Rightarrow> poll n a e w))
      else Some (SysExit 0, w))"

text \<open>
  The scheduled branch of \<^verbatim>\<open>__main__\<close> up to the \<^verbatim>\<open>while\<close> loop, lines 664 to 680.
\<close>

definition scheduling :: "args \<Rightarrow> env \<Rightarrow> world \<Rightarrow> (outcome \<times> world) + world" where
  "scheduling a e w =
     (if is_valid_cron_syntax (croniter_ok e) (sch a) then
        (case schedule_from_cron e (sch a) w of
           Inl x \<Rightarrow> Inl x
         | Inr (w, next_run_time) \<Rightarrow> Inr w)
      else
        (case sch a of
           Cron _ \<Rightarrow> Inl (Uncaught ''TypeError'', w)
         | Minutes m \<Rightarrow>
             (case timedelta (minutes m) of
                None \<Rightarrow> Inl (Uncaught ''OverflowError'', w)
              | Some delta \<Rightarrow>
                  (case schedule_every_x_minutes m w of
                     Inl x \<Rightarrow> Inl x
                   | Inr (w, next_run_time) \<Rightarrow>
                       if startupDelay a \<noteq> 0 then
                         (case sleep e (startupDelay a) w of
                            Inl x \<Rightarrow> Inl x
                          | Inr w \<Rightarrow> start_loop a e w)
                       else start_loop a e w))))"



subsection \<open>Notions used in the properties\<close>

text \<open>
  The interval of \<open>m\<close> minutes fits at time \<open>t\<close>: \<open>m\<close> minutes are a \<^verbatim>\<open>timedelta\<close>
  and \<open>t\<close> plus \<open>m\<close> minutes is a \<^verbatim>\<open>datetime\<close>.
\<close>

definition fits :: "time \<Rightarrow> int \<Rightarrow> bool" where
  "fits t m = (timedelta (minutes m) \<noteq> None \<and> datetime_add t (minutes m) \<noteq> None)"

text \<open>
  Rearming at time \<open>t\<close> cannot end the process: the run is not scheduled, or the
  schedule is an interval that is not taken for a cron expression and that fits at
  \<open>t\<close>, or it is a cron expression for which \<^verbatim>\<open>croniter\<close> finds a next time from \<open>t\<close>.
\<close>

definition rearm_ok :: "args \<Rightarrow> env \<Rightarrow> time \<Rightarrow> bool" where
  "rearm_ok a e t =
     (run a \<or>
      (case sch a of
         Minutes m \<Rightarrow> \<not> croniter_ok e (ascii (str_int m)) \<and> fits t m
       | Cron expr \<Rightarrow> croniter_ok e expr \<and> croniter_next e expr t \<noteq> None))"

text \<open>
  The same for the runs of a list of configuration files that start one after the other
  from time \<open>t\<close>: each rearms at its end.
\<close>

fun rearms_ok :: "args \<Rightarrow> env \<Rightarrow> string list \<Rightarrow> time \<Rightarrow> bool" where
  "rearms_ok a e [] t = True"
| "rearms_ok a e (config_file # rest) t =
     (rearm_ok a e (t + int (took e config_file t))
      \<and> rearms_ok a e rest (t + int (took e config_file t)))"

text \<open>What a report says of the work of its run.\<close>

definition run_content :: "run_report \<Rightarrow> bool \<times> stats \<times> call list \<times> string list \<times> bool" where
  "run_content r = (rr_loaded r, rr_stats r, rr_calls r, rr_summary r, rr_notified r)"

text \<open>
  The work of a full run of one configuration file that starts at a given time, taken
  by itself: if the configuration loads, the stages, the summary and the call of the web
  hooks; if not, nothing.
\<close>

definition full_run :: "env \<Rightarrow> string \<Rightarrow> time \<Rightarrow> bool \<times> stats \<times> call list \<times> string list \<times> bool" where
  "full_run e config_file t =
     (case Config e config_file t of
        None \<Rightarrow> (False, zero_stats, [], [], False)
      | Some cfg \<Rightarrow>
          (let st = run_stages cfg (stages e config_file t)
           in (True, rs_stats st, rs_calls st, stats_summary cfg (rs_stats st), True)))"

text \<open>The report of a run whose configuration did not load.\<close>

definition failed_report :: "string \<Rightarrow> time \<Rightarrow> time \<Rightarrow> time option \<Rightarrow> run_report" where
  "failed_report config_file start_time end_time nxt =
     \<lparr>rr_config = config_file, rr_start_time = start_time, rr_end_time = end_time,
      rr_loaded = False, rr_stats = zero_stats, rr_calls = [], rr_summary = [],
      rr_next_run = nxt, rr_notified = False\<rparr>"


subsection \<open>Examples\<close>

text \<open>
  A configuration that removes unregistered torrents and tags tracker errors, and a run
  in which that stage deletes one torrent and tags one.
\<close>

definition example_commands :: commands where
  "example_commands =
     \<lparr>cat_update = False, tag_update = False, rem_unregistered = True,
      tag_tracker_error = True, recheck = False, tag_nohardlinks = False,
      share_limits = False, rem_orphaned = False, skip_cleanup = False\<rparr>"

definition example_config :: config where
  "example_config =
     \<lparr>cfg_commands = example_commands, qbt = True, tracker_error_tag = ''issue'',
      nohardlinks_tag = ''noHL''\<rparr>"

definition example_results :: stage_results where
  "example_results =
     \<lparr>Category_stats = 0, Tags_stats = 0, rem_unreg_stats_deleted = 1,
      rem_unreg_stats_deleted_contents = 0, rem_unreg_stats_tagged = 1,
      rem_unreg_stats_untagged = 0, recheck_stats_resumed = 0, recheck_stats_rechecked = 0,
      no_hardlinks_stats_tagged = 0, no_hardlinks_stats_untagged = 0,
      share_limits_stats_tagged = 0, share_limits_stats_deleted = 0,
      share_limits_stats_deleted_contents = 0, RemoveOrphaned_stats = 0,
      cleanup_recycle_bin = 0, cleanup_orphaned_data = 0\<rparr>"

text \<open>A configuration with every command off and the clean-up skipped.\<close>

definition quiet_config :: config where
  "quiet_config =
     \<lparr>cfg_commands =
        \<lparr>cat_update = False, tag_update = False, rem_unregistered = False,
         tag_tracker_error = False, recheck = False, tag_nohardlinks = False,
         share_limits = False, rem_orphaned = False, skip_cleanup = True\<rparr>,
      qbt = True, tracker_error_tag = ''issue'', nohardlinks_tag = ''noHL''\<rparr>"

text \<open>
  Collaborators for the examples: \<^verbatim>\<open>bad.yml\<close> does not load, every other file loads
  as \<open>example_config\<close>; a run works for five seconds; a cron expression is due one
  minute after its base time; sleeps do not overrun; no termination request arrives; the
  decimal digits above ASCII are the Arabic-Indic ones; the limit on digits is 4300.
\<close>

definition example_env :: env where
  "example_env =
     \<lparr>Config = (\<lambda>file t. if file = ''bad.yml'' then None else Some example_config),
      stages = (\<lambda>file t. example_results),
      took = (\<lambda>file t. 5000000),
      croniter_ok = five_field_cron,
      croniter_next = (\<lambda>expr base. Some (base + 60000000)),
      sleep_lag = (\<lambda>t. 0),
      kill_at = None,
      unicode_decimal = (\<lambda>c. if 1632 \<le> c \<and> c \<le> 1641 then Some (c - 1632) else None),
      int_max_str_digits = 4300\<rparr>"

definition example_world :: world where
  "example_world = \<lparr>now = 0, jobs = [], runs = []\<rparr>"

text \<open>
  Arguments for the examples: three configuration files of which the second does not
  load, every minute, no start-up delay.
\<close>

definition example_args :: args where
  "example_args =
     \<lparr>run = False, sch = Minutes 1, startupDelay = 0,
      config_files = [''a.yml'', ''bad.yml'', ''c.yml'']\<rparr>"


text \<open>The same with a start-up delay of thirty seconds, and with a cron expression.\<close>

definition delayed_args :: args where
  "delayed_args = example_args\<lparr>startupDelay := 30\<rparr>"

definition cron_args :: args where
  "cron_args = example_args\<lparr>sch := Cron (ascii ''*/5 * * * *''), startupDelay := 30\<rparr>"

text \<open>The same in run mode.\<close>

definition once_args :: args where
  "once_args = example_args\<lparr>run := True\<rparr>"

text \<open>
  A world in which the job is due, at second 65, and collaborators with a termination
  request that arrives at second 67, while the run of that job works.
\<close>

definition due_world :: world where
  "due_world =
     \<lparr>now = 65000000, jobs = [\<lparr>job_next_run = 65000000, job_period = 60000000\<rparr>],
      runs = []\<rparr>"

definition interrupted_env :: env where
  "interrupted_env = example_env\<lparr>kill_at := Some 67000000\<rparr>"


text \<open>The amount that a stage adds to a counter: nothing when it is not invoked.\<close>

definition contributed :: "bool \<Rightarrow> int \<Rightarrow> int" where
  "contributed invoked v = (if invoked then v else 0)"

section \<open>Properties\<close>

subsection \<open>The state of a run\<close>

lemma rs_calls_bump [simp]: "rs_calls (bump k v st) = rs_calls st"
  by (simp add: bump_def)

lemma rs_calls_invoke [simp]: "rs_calls (invoke c st) = rs_calls st @ [c]"
  by (simp add: invoke_def)

lemma rs_stats_bump [simp]: "rs_stats (bump k v st) = add_stat k v (rs_stats st)"
  by (simp add: bump_def)

lemma rs_stats_invoke [simp]: "rs_stats (invoke c st) = rs_stats st"
  by (simp add: invoke_def)

lemmas stage_defs = set_category_def set_tags_def remove_unregistered_def
  recheck_torrents_def tag_no_hardlinks_def set_share_limits_def remove_orphaned_def
  empty_recycle_bin_def empty_orphaned_directory_def

lemma example_stats:
  "rs_stats (run_stages example_config example_results) =
     zero_stats(Rem_unreg := 1, Deleted := 1, Tagged_tracker_error := 1, Tagged := 1)"
  by (simp add: run_stages_def example_config_def example_commands_def example_results_def
      stage_defs add_stat_def fresh_run_def zero_stats_def fun_eq_iff)

lemma str_int_1: "str_int 1 = ''1''"
  by code_simp

subsection \<open>The summary\<close>

lemma filter_step: "filter P (x # xs) = (if P x then [x] else []) @ filter P xs"
  by simp

lemma append_if_last: "(if c then l @ [x] else l) = l @ (if c then [x] else [])"
  by simp

lemma map_if_single: "map f (if c then [x] else []) = (if c then [f x] else [])"
  by simp

lemma stats_summary_filter:
  "stats_summary cfg s = map (summary_line cfg s) (filter (\<lambda>k. 0 < s k) summary_order)"
  unfolding stats_summary_def summary_order_def
  apply (simp only: append_if_last)
  apply (simp only: Let_def)
  apply (simp only: filter_step map_append map_if_single filter.simps(1) list.map
      append_Nil append_Nil2 append_assoc)
  apply (simp only: summary_line_def action.simps append_assoc append.simps)
  done

lemma summary_order_complete: "set summary_order = UNIV"
proof -
  have "k \<in> set summary_order" for k
    by (cases k) (simp_all add: summary_order_def)
  then show ?thesis by blast
qed

text \<open>
  Claim C1, as the source has it.  When no counter is negative, the summary is the list
  of the lines \<^verbatim>\<open>Total <action>: <count>\<close> of the counters that are not zero, one line
  for each, in the order in which the source tests the counters (\<open>summary_order\<close>, which
  names each of the seventeen counters once): categorized, tagged, unregistered-removed,
  tagged-tracker-error, untagged-tracker-error, added, resumed, rechecked, deleted,
  deleted-with-contents, orphaned-found, tagged-no-hardlinks, untagged-no-hardlinks,
  share-limits-updated, share-limits-cleaned, recycle-bin-emptied, orphaned-dir-emptied.
\<close>

theorem summary_lists_nonzero_counters:
  assumes "\<forall>k. 0 \<le> s k"
  shows "stats_summary cfg s =
           map (summary_line cfg s) (filter (\<lambda>k. s k \<noteq> 0) summary_order)
         \<and> distinct summary_order \<and> set summary_order = UNIV"
proof -
  have "(\<lambda>k. 0 < s k) = (\<lambda>k. s k \<noteq> 0)"
    using assms by (auto simp: fun_eq_iff less_le)
  then show ?thesis
    by (simp add: stats_summary_filter summary_order_complete) (simp add: summary_order_def)
qed

text \<open>The example run: four counters are positive, and the summary has their four lines.\<close>

theorem summary_lists_nonzero_counters_witness:
  "(\<forall>k. 0 \<le> rs_stats (run_stages example_config example_results) k) \<and>
   stats_summary example_config (rs_stats (run_stages example_config example_results)) =
     [''Total Torrents Tagged: 1'', ''Total Unregistered Torrents Removed: 1'',
      ''Total issue Torrents Tagged: 1'', ''Total Torrents Deleted: 1'']"
proof -
  have h: "\<forall>k. 0 \<le> rs_stats (run_stages example_config example_results) k"
    by (simp add: example_stats zero_stats_def)
  have e: "map (summary_line example_config (rs_stats (run_stages example_config example_results)))
             (filter (\<lambda>k. rs_stats (run_stages example_config example_results) k \<noteq> 0)
                summary_order) =
           [''Total Torrents Tagged: 1'', ''Total Unregistered Torrents Removed: 1'',
            ''Total issue Torrents Tagged: 1'', ''Total Torrents Deleted: 1'']"
    unfolding example_stats
    by (simp add: summary_order_def zero_stats_def summary_line_def example_config_def
        str_int_1)
  from summary_lists_nonzero_counters [OF h, of example_config]
  have "stats_summary example_config (rs_stats (run_stages example_config example_results)) =
          [''Total Torrents Tagged: 1'', ''Total Unregistered Torrents Removed: 1'',
           ''Total issue Torrents Tagged: 1'', ''Total Torrents Deleted: 1'']"
    unfolding e by (rule conjunct1)
  with h show ?thesis by (rule conjI)
qed

text \<open>
  In the order of section 3 of the specification the line of tagged-tracker-error comes
  before the line of unregistered-removed; the summary of the example run has them the
  other way round.
\<close>

theorem summary_not_in_spec_order:
  "stats_summary example_config (rs_stats (run_stages example_config example_results)) \<noteq>
     map (summary_line example_config (rs_stats (run_stages example_config example_results)))
       (filter (\<lambda>k. rs_stats (run_stages example_config example_results) k \<noteq> 0)
          spec_counter_order)"
  by code_simp

subsection \<open>The stages\<close>

lemma calls_set_category:
  "rs_calls (set_category cfg r st) = rs_calls st @ filter (guard cfg) [Category]"
  by (simp add: set_category_def)

lemma calls_set_tags:
  "rs_calls (set_tags cfg r st) = rs_calls st @ filter (guard cfg) [Tags]"
  by (simp add: set_tags_def)

lemma calls_remove_unregistered:
  "rs_calls (remove_unregistered cfg r st) =
     rs_calls st @ filter (guard cfg) [RemoveUnregistered]"
  by (simp add: remove_unregistered_def)

lemma calls_recheck_torrents:
  "rs_calls (recheck_torrents cfg r st) = rs_calls st @ filter (guard cfg) [ReCheck]"
  by (simp add: recheck_torrents_def)

lemma calls_tag_no_hardlinks:
  "rs_calls (tag_no_hardlinks cfg r st) = rs_calls st @ filter (guard cfg) [TagNoHardLinks]"
  by (simp add: tag_no_hardlinks_def)

lemma calls_set_share_limits:
  "rs_calls (set_share_limits cfg r st) = rs_calls st @ filter (guard cfg) [ShareLimits]"
  by (simp add: set_share_limits_def)

lemma calls_remove_orphaned:
  "rs_calls (remove_orphaned cfg r st) = rs_calls st @ filter (guard cfg) [RemoveOrphaned]"
  by (simp add: remove_orphaned_def)

lemma calls_empty_recycle_bin:
  "rs_calls (empty_recycle_bin r st) = rs_calls st @ [Cleanup_dirs ''Recycle Bin'']"
  by (simp add: empty_recycle_bin_def)

lemma calls_empty_orphaned_directory:
  "rs_calls (empty_orphaned_directory r st) = rs_calls st @ [Cleanup_dirs ''Orphaned Data'']"
  by (simp add: empty_orphaned_directory_def)

lemmas calls_stage = calls_set_category calls_set_tags calls_remove_unregistered
  calls_recheck_torrents calls_tag_no_hardlinks calls_set_share_limits calls_remove_orphaned
  calls_empty_recycle_bin calls_empty_orphaned_directory

text \<open>
  Claim C3, as the source has it.  With a client handle, a run invokes, in the fixed
  order of the nine stages, those of the first seven whose command is enabled (the third
  when \<^verbatim>\<open>rem_unregistered\<close> or \<^verbatim>\<open>tag_tracker_error\<close> is), and then the recycle-bin
  and the orphaned-directory clean-up in every case; without a client handle it invokes
  no stage.
\<close>

theorem stages_invoked_by_guard:
  "rs_calls (run_stages cfg r) = (if qbt cfg then filter (guard cfg) nine_stages else [])"
proof (cases "qbt cfg")
  case True
  have "rs_calls (run_stages cfg r) =
      filter (guard cfg) [Category] @ filter (guard cfg) [Tags]
      @ filter (guard cfg) [RemoveUnregistered] @ filter (guard cfg) [ReCheck]
      @ filter (guard cfg) [TagNoHardLinks] @ filter (guard cfg) [ShareLimits]
      @ filter (guard cfg) [RemoveOrphaned]
      @ [Cleanup_dirs ''Recycle Bin''] @ [Cleanup_dirs ''Orphaned Data'']"
    using True by (simp only: run_stages_def calls_stage if_True append_assoc)
       (simp add: fresh_run_def)
  also have "\<dots> = filter (guard cfg) nine_stages"
    unfolding nine_stages_def by (simp only: filter_append [symmetric] append.simps) simp
  finally show ?thesis using True by simp
next
  case False
  then show ?thesis by (simp add: run_stages_def fresh_run_def)
qed

text \<open>
  With every command off and the clean-up skipped, no stage has its capability enabled,
  and the run still invokes the two clean-ups.
\<close>

theorem cleanup_invoked_when_skipped:
  "rs_calls (run_stages quiet_config example_results) =
     [Cleanup_dirs ''Recycle Bin'', Cleanup_dirs ''Orphaned Data'']
   \<and> filter (spec_enabled quiet_config) nine_stages = []"
  by (simp add: run_stages_def quiet_config_def stage_defs fresh_run_def nine_stages_def)

subsection \<open>The counters after the stages\<close>

lemma tagged_steps:
  "rs_stats (set_category cfg r st) Tagged = rs_stats st Tagged"
  "rs_stats (set_tags cfg r st) Tagged =
     rs_stats st Tagged + contributed (guard cfg Tags) (Tags_stats r)"
  "rs_stats (remove_unregistered cfg r st) Tagged =
     rs_stats st Tagged + contributed (guard cfg RemoveUnregistered) (rem_unreg_stats_tagged r)"
  "rs_stats (recheck_torrents cfg r st) Tagged = rs_stats st Tagged"
  "rs_stats (tag_no_hardlinks cfg r st) Tagged =
     rs_stats st Tagged + contributed (guard cfg TagNoHardLinks) (no_hardlinks_stats_tagged r)"
  "rs_stats (set_share_limits cfg r st) Tagged =
     rs_stats st Tagged + contributed (guard cfg ShareLimits) (share_limits_stats_tagged r)"
  "rs_stats (remove_orphaned cfg r st) Tagged = rs_stats st Tagged"
  "rs_stats (empty_recycle_bin r st) Tagged = rs_stats st Tagged"
  "rs_stats (empty_orphaned_directory r st) Tagged = rs_stats st Tagged"
  by (simp_all add: stage_defs add_stat_def contributed_def)

lemma stat_steps:
  assumes "k \<in> {Tagged_tracker_error, Tagged_noHL, Updated_share_limits, Rem_unreg}"
  shows
  "rs_stats (set_category cfg r st) k = rs_stats st k"
  "rs_stats (set_tags cfg r st) k = rs_stats st k"
  "rs_stats (remove_unregistered cfg r st) k = rs_stats st k +
      (if k = Tagged_tracker_error
       then contributed (guard cfg RemoveUnregistered) (rem_unreg_stats_tagged r)
       else if k = Rem_unreg
       then contributed (guard cfg RemoveUnregistered)
              (rem_unreg_stats_deleted r + rem_unreg_stats_deleted_contents r)
       else 0)"
  "rs_stats (recheck_torrents cfg r st) k = rs_stats st k"
  "rs_stats (tag_no_hardlinks cfg r st) k = rs_stats st k +
      (if k = Tagged_noHL
       then contributed (guard cfg TagNoHardLinks) (no_hardlinks_stats_tagged r) else 0)"
  "rs_stats (set_share_limits cfg r st) k = rs_stats st k +
      (if k = Updated_share_limits
       then contributed (guard cfg ShareLimits) (share_limits_stats_tagged r) else 0)"
  "rs_stats (remove_orphaned cfg r st) k = rs_stats st k"
  "rs_stats (empty_recycle_bin r st) k = rs_stats st k"
  "rs_stats (empty_orphaned_directory r st) k = rs_stats st k"
  using assms by (auto simp add: stage_defs add_stat_def contributed_def)

text \<open>
  Claim C10.  In a run that reaches the pipeline, the counter \<^verbatim>\<open>tagged\<close> ends as the sum
  of what four stages tagged: the tag update, the stage of unregistered torrents and
  tracker errors, the tagging of torrents without hard links, and the share limits.  The
  last three amounts are also the final values of \<^verbatim>\<open>tagged_tracker_error\<close>,
  \<^verbatim>\<open>tagged_noHL\<close> and \<^verbatim>\<open>updated_share_limits\<close>, so they are counted twice; and
  \<^verbatim>\<open>rem_unreg\<close> ends as that stage's deleted plus deleted-with-contents.
\<close>

theorem tagged_is_sum_of_four_stages:
  assumes "qbt cfg"
  shows "rs_stats (run_stages cfg r) Tagged =
           contributed (tag_update (cfg_commands cfg)) (Tags_stats r)
         + contributed
             (rem_unregistered (cfg_commands cfg) \<or> tag_tracker_error (cfg_commands cfg))
             (rem_unreg_stats_tagged r)
         + contributed (tag_nohardlinks (cfg_commands cfg)) (no_hardlinks_stats_tagged r)
         + contributed (share_limits (cfg_commands cfg)) (share_limits_stats_tagged r)
       \<and> rs_stats (run_stages cfg r) Tagged_tracker_error =
           contributed
             (rem_unregistered (cfg_commands cfg) \<or> tag_tracker_error (cfg_commands cfg))
             (rem_unreg_stats_tagged r)
       \<and> rs_stats (run_stages cfg r) Tagged_noHL =
           contributed (tag_nohardlinks (cfg_commands cfg)) (no_hardlinks_stats_tagged r)
       \<and> rs_stats (run_stages cfg r) Updated_share_limits =
           contributed (share_limits (cfg_commands cfg)) (share_limits_stats_tagged r)
       \<and> rs_stats (run_stages cfg r) Rem_unreg =
           contributed
             (rem_unregistered (cfg_commands cfg) \<or> tag_tracker_error (cfg_commands cfg))
             (rem_unreg_stats_deleted r + rem_unreg_stats_deleted_contents r)"
  using assms
  by (simp add: run_stages_def tagged_steps stat_steps fresh_run_def zero_stats_def)

text \<open>The example run: one torrent tagged for a tracker error, one removed.\<close>

theorem tagged_is_sum_of_four_stages_witness:
  "qbt example_config
   \<and> rs_stats (run_stages example_config example_results) Tagged = 0 + 1 + 0 + 0
   \<and> rs_stats (run_stages example_config example_results) Tagged_tracker_error = 1
   \<and> rs_stats (run_stages example_config example_results) Rem_unreg = 1 + 0"
proof -
  have h: "qbt example_config"
    by (simp add: example_config_def)
  show ?thesis
    using h tagged_is_sum_of_four_stages [OF h, of example_results]
    by (simp add: contributed_def example_config_def example_commands_def
        example_results_def)
qed

subsection \<open>Start-up\<close>


lemmas cron_defs = five_field_cron_def ascii_def unicode_space_def is_field_char_def
  is_digit_def














subsection \<open>Rearming\<close>

lemma fits_Some:
  assumes "fits t m"
  shows "timedelta (minutes m) = Some (minutes m)"
    and "datetime_add t (minutes m) = Some (t + minutes m)"
  using assms
  by (auto simp add: fits_def timedelta_def datetime_add_def Let_def split: if_splits)

lemma datetime_fits:
  assumes "datetime_min \<le> t" "t \<le> datetime_max"
    "datetime_min \<le> t + minutes m" "t + minutes m \<le> datetime_max"
  shows "fits t m"
proof -
  have "- 315537897599999999 \<le> minutes m" "minutes m \<le> 315537897599999999"
    using assms by (simp_all add: datetime_min_def datetime_max_def)
  then have "- 999999999 \<le> minutes m div 86400000000"
    and "minutes m div 86400000000 \<le> 999999999"
    by linarith+
  then show ?thesis
    using assms by (simp add: fits_def timedelta_def datetime_add_def)
qed

lemma schedule_every_x_minutes_fits:
  assumes "fits (now w) m"
  shows "schedule_every_x_minutes m w =
           Inr (w\<lparr>jobs := [\<lparr>job_next_run = now w + minutes m, job_period = minutes m\<rparr>]\<rparr>,
                now w + minutes m)"
  using fits_Some [OF assms] by (simp add: schedule_every_x_minutes_def)

lemma rearm_interval:
  assumes "sch a = Minutes m" "\<not> croniter_ok e (ascii (str_int m))" "fits (now w) m"
  shows "rearm a e w = schedule_every_x_minutes m w"
  using assms fits_Some(1) [OF assms(3)]
  by (simp add: rearm_def is_valid_cron_syntax_def)

lemma finished_run_once:
  "run a \<Longrightarrow> finished_run a e w = Inr (w, now w, None)"
  by (simp add: finished_run_def calc_next_run_def)

lemma finished_run_interval:
  assumes "\<not> run a" "sch a = Minutes m" "\<not> croniter_ok e (ascii (str_int m))"
    "fits (now w) m"
  shows "finished_run a e w =
           Inr (w\<lparr>jobs := [\<lparr>job_next_run = now w + minutes m, job_period = minutes m\<rparr>]\<rparr>,
                now w, Some (now w + minutes m))"
  using assms(1)
  by (simp add: finished_run_def rearm_interval [OF assms(2-4)]
      schedule_every_x_minutes_fits [OF assms(4)] calc_next_run_def)

lemma finished_run_cron:
  assumes "\<not> run a" "sch a = Cron expr" "croniter_ok e expr"
    "croniter_next e expr (now w) = Some t"
  shows "finished_run a e w =
           Inr (w\<lparr>jobs := [\<lparr>job_next_run = t, job_period = t - now w\<rparr>]\<rparr>, now w, Some t)"
  using assms
  by (simp add: finished_run_def rearm_def is_valid_cron_syntax_def
      schedule_from_cron_def calc_next_run_def)

lemma finished_run_total:
  assumes "rearm_ok a e (now w)"
  shows "\<exists>w' nxt. finished_run a e w = Inr (w', now w, nxt) \<and> now w' = now w \<and> runs w' = runs w"
proof (cases "run a")
  case True
  then show ?thesis by (simp add: finished_run_once)
next
  case False
  show ?thesis
  proof (cases "sch a")
    case (Minutes m)
    with False assms have "\<not> croniter_ok e (ascii (str_int m))" and "fits (now w) m"
      by (simp_all add: rearm_ok_def)
    from finished_run_interval [OF False Minutes this] show ?thesis by simp
  next
    case (Cron expr)
    with False assms have ok: "croniter_ok e expr" and "croniter_next e expr (now w) \<noteq> None"
      by (simp_all add: rearm_ok_def)
    then obtain t where "croniter_next e expr (now w) = Some t" by blast
    from finished_run_cron [OF False Cron ok this] show ?thesis by simp
  qed
qed

lemma not_cron_1: "\<not> five_field_cron (ascii (str_int 1))"
  by (simp add: str_int_def str_nat.simps digit_char_def cron_defs)

lemma example_interval: "\<not> croniter_ok example_env (ascii (str_int 1))"
  by (simp add: example_env_def not_cron_1)

lemma cron_5: "five_field_cron (ascii ''*/5 * * * *'')"
  by (simp add: cron_defs)

lemma fits_example: "0 \<le> t \<Longrightarrow> t \<le> 1000000000 \<Longrightarrow> fits t 1"
  by (rule datetime_fits) (simp_all add: datetime_min_def datetime_max_def minutes_def seconds_def)

lemma example_loaded:
  assumes "run_content r = full_run (e\<lparr>kill_at := k\<rparr>) (rr_config r) (rr_start_time r)"
    and "Config e = Config example_env"
  shows "rr_loaded r = (rr_config r \<noteq> ''bad.yml'')"
    and "rr_notified r = (rr_config r \<noteq> ''bad.yml'')"
  using assms
  by (auto simp add: run_content_def full_run_def example_env_def Let_def split: if_splits)

text \<open>
  Claim C6, as the source has it.  For an interval of \<open>m\<close> minutes, \<open>m\<close> at least 1, and
  a present time that is a \<^verbatim>\<open>datetime\<close> and from which \<open>m\<close> minutes do not lead past the
  last \<^verbatim>\<open>datetime\<close>, \<^verbatim>\<open>schedule_every_x_minutes\<close> returns the present time plus \<open>m\<close>
  minutes, and the job table then holds one job, due at that time.  (The clock of the
  model does not move between the two readings of the time, the library's and the
  function's, so the two times are equal.)
\<close>

theorem fixed_interval_next_run:
  assumes "1 \<le> m" "datetime_min \<le> now w" "now w + m * 60000000 \<le> datetime_max"
  shows "schedule_every_x_minutes m w =
           Inr (w\<lparr>jobs := [\<lparr>job_next_run = now w + m * 60000000,
                               job_period = m * 60000000\<rparr>]\<rparr>,
                now w + m * 60000000)"
proof -
  have m: "minutes m = m * 60000000"
    by (simp add: minutes_def seconds_def)
  have f: "fits (now w) m"
    using assms by (intro datetime_fits) (simp_all add: m)
  show ?thesis
    using schedule_every_x_minutes_fits [OF f] by (simp add: m)
qed

text \<open>Every minute, from time 0.\<close>

theorem fixed_interval_next_run_witness:
  "(1::int) \<le> 1 \<and> datetime_min \<le> now example_world
   \<and> now example_world + 1 * 60000000 \<le> datetime_max
   \<and> schedule_every_x_minutes 1 example_world =
       Inr (example_world\<lparr>jobs := [\<lparr>job_next_run = 60000000, job_period = 60000000\<rparr>]\<rparr>,
            60000000)"
proof -
  have h1: "(1::int) \<le> 1" by simp
  have h2: "datetime_min \<le> now example_world"
    by (simp add: datetime_min_def example_world_def)
  have h3: "now example_world + 1 * 60000000 \<le> datetime_max"
    by (simp add: datetime_max_def example_world_def)
  from fixed_interval_next_run [OF h1 h2 h3]
  have v: "schedule_every_x_minutes 1 example_world =
       Inr (example_world\<lparr>jobs := [\<lparr>job_next_run = 60000000, job_period = 60000000\<rparr>]\<rparr>,
            60000000)"
    by (simp add: example_world_def)
  from h1 h2 h3 v show ?thesis by (intro conjI)
qed

text \<open>
  Ten thousand million minutes from the start of 1970 lead past the year 9999: the
  function ends with \<^verbatim>\<open>OverflowError\<close>, and no job is in the table.
\<close>

theorem interval_beyond_datetime_overflows:
  "(1::int) \<le> 10000000000
   \<and> schedule_every_x_minutes 10000000000 example_world =
       Inl (Uncaught ''OverflowError'', example_world)
   \<and> jobs example_world = []"
  by (simp add: schedule_every_x_minutes_def timedelta_def datetime_add_def datetime_min_def
      datetime_max_def minutes_def seconds_def example_world_def)

subsection \<open>Runs\<close>

lemma start_failed:
  assumes "Config e f (now w) = None"
    and "finished_run a e (w\<lparr>now := now w + int (took e f (now w))\<rparr>) = Inr (w', end_time, nxt)"
  shows "start a e f w = Inr (w'\<lparr>runs := runs w' @ [failed_report f (now w) end_time nxt]\<rparr>)"
  using assms by (simp add: start_def failed_report_def Let_def)

lemma start_total:
  assumes "rearm_ok a e (now w + int (took e f (now w)))"
  shows "\<exists>w' r. start a e f w = Inr w' \<and> now w' = now w + int (took e f (now w))
           \<and> runs w' = runs w @ [r]
           \<and> rr_config r = f \<and> rr_start_time r = now w
           \<and> run_content r = full_run e f (now w)"
proof -
  from finished_run_total [of a e "w\<lparr>now := now w + int (took e f (now w))\<rparr>"] assms
  obtain w' nxt where
    f: "finished_run a e (w\<lparr>now := now w + int (took e f (now w))\<rparr>)
          = Inr (w', now w + int (took e f (now w)), nxt)"
    and n: "now w' = now w + int (took e f (now w))" and r: "runs w' = runs w"
    by auto
  show ?thesis
    using f n r
    by (cases "Config e f (now w)")
       (simp_all add: start_def Let_def run_content_def full_run_def)
qed

lemma start_each_total:
  "rearms_ok a e fs (now w) \<Longrightarrow>
     \<exists>w' rs. start_each a e fs w = Inr w' \<and> now w \<le> now w' \<and> runs w' = runs w @ rs
           \<and> map rr_config rs = fs
           \<and> (\<forall>r\<in>set rs. now w \<le> rr_start_time r
                 \<and> run_content r = full_run e (rr_config r) (rr_start_time r))"
proof (induction fs arbitrary: w)
  case Nil
  then show ?case by simp
next
  case (Cons f fs)
  from Cons.prems have ok: "rearm_ok a e (now w + int (took e f (now w)))"
    and rest: "rearms_ok a e fs (now w + int (took e f (now w)))"
    by simp_all
  from start_total [OF ok] obtain w1 r where
    s: "start a e f w = Inr w1" and t: "now w1 = now w + int (took e f (now w))"
    and rs: "runs w1 = runs w @ [r]"
    and c: "rr_config r = f" and st: "rr_start_time r = now w"
    and rc: "run_content r = full_run e f (now w)"
    by blast
  from rest t have "rearms_ok a e fs (now w1)"
    by simp
  from Cons.IH [OF this] obtain w2 rs2 where
    s2: "start_each a e fs w1 = Inr w2" and t2: "now w1 \<le> now w2"
    and rs2: "runs w2 = runs w1 @ rs2" and c2: "map rr_config rs2 = fs"
    and all2: "\<forall>r\<in>set rs2. now w1 \<le> rr_start_time r
                 \<and> run_content r = full_run e (rr_config r) (rr_start_time r)"
    by blast
  have "start_each a e (f # fs) w = Inr w2" using s s2 by simp
  moreover have "now w \<le> now w2" using t t2 by simp
  moreover have "runs w2 = runs w @ (r # rs2)" using rs rs2 by simp
  moreover have "map rr_config (r # rs2) = f # fs" using c c2 by simp
  moreover have "\<forall>x\<in>set (r # rs2). now w \<le> rr_start_time x
                 \<and> run_content x = full_run e (rr_config x) (rr_start_time x)"
    using all2 t st rc c by auto
  ultimately show ?case
    by (intro exI [of _ w2] exI [of _ "r # rs2"] conjI)
qed

lemma start_loop_total:
  assumes "rearms_ok a e (config_files a) (now w)"
  shows "\<exists>w' rs. start_loop a e w = Inr w' \<and> now w \<le> now w' \<and> runs w' = runs w @ rs
           \<and> map rr_config rs = config_files a
           \<and> (\<forall>r\<in>set rs. now w \<le> rr_start_time r
                 \<and> run_content r = full_run e (rr_config r) (rr_start_time r))"
proof (cases "length (config_files a) = 1")
  case True
  then obtain f where fs: "config_files a = [f]"
    by (cases "config_files a") auto
  with assms have "rearm_ok a e (now w + int (took e f (now w)))"
    by simp
  from start_total [OF this] obtain w1 r where
    "start a e f w = Inr w1" "now w1 = now w + int (took e f (now w))"
    "runs w1 = runs w @ [r]"
    "rr_config r = f" "rr_start_time r = now w"
    "run_content r = full_run e f (now w)"
    by blast
  then have "start_loop a e w = Inr w1 \<and> now w \<le> now w1 \<and> runs w1 = runs w @ [r]
           \<and> map rr_config [r] = config_files a
           \<and> (\<forall>x\<in>set [r]. now w \<le> rr_start_time x
                 \<and> run_content x = full_run e (rr_config x) (rr_start_time x))"
    using fs by (simp add: start_loop_def)
  then show ?thesis
    by (intro exI [of _ w1] exI [of _ "[r]"])
next
  case False
  then show ?thesis
    using start_each_total [OF assms] by (simp add: start_loop_def)
qed

lemma example_rearms:
  assumes "0 \<le> t" "t \<le> 500000000" "took e = took example_env"
    "croniter_ok e = croniter_ok example_env"
  shows "rearms_ok example_args e (config_files example_args) t"
  using assms example_interval 
  by (simp add: example_args_def rearm_ok_def fits_example) (simp add: example_env_def fits_example)

text \<open>
  Claim C4.  When \<^verbatim>\<open>Config(...)\<close> raises, \<^verbatim>\<open>start\<close> returns: the report of the run has
  every counter at zero, and \<^verbatim>\<open>finished_run\<close> has done its work as in any other run.
  In scheduled mode with an interval that fits at the end of the run, the job table holds
  one job, due \<open>m\<close> minutes after the end of the run, and that time is the next run; with a
  cron expression for which \<^verbatim>\<open>croniter\<close> gives the next time \<open>t\<close>, it holds one job due
  at \<open>t\<close>.  In run mode there is no schedule: the job table is as it was, and there is no
  next run.
\<close>

theorem failed_acquisition_keeps_schedule:
  assumes "Config e f (now w) = None"
  shows "(run a \<longrightarrow>
            start a e f w =
              Inr (w\<lparr>now := now w + int (took e f (now w)),
                     runs := runs w @
                       [failed_report f (now w) (now w + int (took e f (now w))) None]\<rparr>))
       \<and> (\<not> run a \<and> sch a = Minutes m \<and> \<not> croniter_ok e (ascii (str_int m))
            \<and> fits (now w + int (took e f (now w))) m \<longrightarrow>
            start a e f w =
              Inr (w\<lparr>now := now w + int (took e f (now w)),
                     jobs := [\<lparr>job_next_run = now w + int (took e f (now w)) + minutes m,
                               job_period = minutes m\<rparr>],
                     runs := runs w @
                       [failed_report f (now w) (now w + int (took e f (now w)))
                          (Some (now w + int (took e f (now w)) + minutes m))]\<rparr>))
       \<and> (\<not> run a \<and> sch a = Cron expr \<and> croniter_ok e expr
            \<and> croniter_next e expr (now w + int (took e f (now w))) = Some t \<longrightarrow>
            start a e f w =
              Inr (w\<lparr>now := now w + int (took e f (now w)),
                     jobs := [\<lparr>job_next_run = t,
                               job_period = t - (now w + int (took e f (now w)))\<rparr>],
                     runs := runs w @
                       [failed_report f (now w) (now w + int (took e f (now w))) (Some t)]\<rparr>))
       \<and> rr_stats (failed_report f (now w) (now w + int (took e f (now w))) nxt) = zero_stats
       \<and> zero_stats k = 0"
proof -
  let ?w = "w\<lparr>now := now w + int (took e f (now w))\<rparr>"
  have a: "run a \<Longrightarrow> finished_run a e ?w = Inr (?w, now ?w, None)"
    by (rule finished_run_once)
  have b: "\<not> run a \<Longrightarrow> sch a = Minutes m \<Longrightarrow> \<not> croniter_ok e (ascii (str_int m)) \<Longrightarrow>
      fits (now ?w) m \<Longrightarrow>
      finished_run a e ?w =
        Inr (?w\<lparr>jobs := [\<lparr>job_next_run = now ?w + minutes m, job_period = minutes m\<rparr>]\<rparr>,
             now ?w, Some (now ?w + minutes m))"
    by (rule finished_run_interval)
  have c: "\<not> run a \<Longrightarrow> sch a = Cron expr \<Longrightarrow> croniter_ok e expr \<Longrightarrow>
      croniter_next e expr (now ?w) = Some t \<Longrightarrow>
      finished_run a e ?w =
        Inr (?w\<lparr>jobs := [\<lparr>job_next_run = t, job_period = t - now ?w\<rparr>]\<rparr>, now ?w, Some t)"
    by (rule finished_run_cron)
  show ?thesis
    using start_failed [OF assms a] start_failed [OF assms b] start_failed [OF assms c]
    by (simp add: failed_report_def zero_stats_def)
qed

text \<open>
  The file \<^verbatim>\<open>bad.yml\<close> in scheduled mode every minute, in run mode, and with a
  cron expression.
\<close>

theorem failed_acquisition_keeps_schedule_witness:
  "Config example_env ''bad.yml'' (now example_world) = None
   \<and> \<not> run example_args \<and> sch example_args = Minutes 1
   \<and> \<not> croniter_ok example_env (ascii (str_int 1))
   \<and> fits 5000000 1
   \<and> start example_args example_env ''bad.yml'' example_world =
       Inr \<lparr>now = 5000000,
            jobs = [\<lparr>job_next_run = 65000000, job_period = 60000000\<rparr>],
            runs = [failed_report ''bad.yml'' 0 5000000 (Some 65000000)]\<rparr>
   \<and> run once_args
   \<and> start once_args example_env ''bad.yml'' example_world =
       Inr \<lparr>now = 5000000, jobs = [],
            runs = [failed_report ''bad.yml'' 0 5000000 None]\<rparr>
   \<and> \<not> run cron_args \<and> sch cron_args = Cron (ascii ''*/5 * * * *'')
   \<and> croniter_ok example_env (ascii ''*/5 * * * *'')
   \<and> croniter_next example_env (ascii ''*/5 * * * *'') 5000000 = Some 65000000
   \<and> start cron_args example_env ''bad.yml'' example_world =
       Inr \<lparr>now = 5000000,
            jobs = [\<lparr>job_next_run = 65000000, job_period = 60000000\<rparr>],
            runs = [failed_report ''bad.yml'' 0 5000000 (Some 65000000)]\<rparr>
   \<and> rr_stats (failed_report ''bad.yml'' 0 5000000 None) Tagged = 0"
proof -
  have h: "Config example_env ''bad.yml'' (now example_world) = None"
    by (simp add: example_env_def)
  have tk: "took example_env ''bad.yml'' (now example_world) = 5000000"
    by (simp add: example_env_def)
  have ft: "fits 5000000 1"
    by (rule fits_example) simp_all
  have g0: "\<not> run example_args \<and> sch example_args = Minutes 1
             \<and> \<not> croniter_ok example_env (ascii (str_int 1))"
    using example_interval by (simp add: example_args_def)
  have g: "\<not> run example_args \<and> sch example_args = Minutes 1
             \<and> \<not> croniter_ok example_env (ascii (str_int 1))
             \<and> fits (now example_world
                       + int (took example_env ''bad.yml'' (now example_world))) 1"
    using g0 ft by (simp add: tk) (simp add: example_world_def)
  note t = failed_acquisition_keeps_schedule [OF h, of example_args 1,
      THEN conjunct2, THEN conjunct1, THEN mp, OF g]
  have i: "start example_args example_env ''bad.yml'' example_world =
       Inr \<lparr>now = 5000000,
            jobs = [\<lparr>job_next_run = 65000000, job_period = 60000000\<rparr>],
            runs = [failed_report ''bad.yml'' 0 5000000 (Some 65000000)]\<rparr>"
    unfolding t tk by (simp add: example_world_def minutes_def seconds_def)
  have ro: "run once_args"
    by (simp add: once_args_def)
  note t1 = failed_acquisition_keeps_schedule [OF h, of once_args,
      THEN conjunct1, THEN mp, OF ro]
  have o: "start once_args example_env ''bad.yml'' example_world =
       Inr \<lparr>now = 5000000, jobs = [],
            runs = [failed_report ''bad.yml'' 0 5000000 None]\<rparr>"
    unfolding t1 tk by (simp add: example_world_def)
  have ok: "croniter_ok example_env (ascii ''*/5 * * * *'')"
    using cron_5 by (simp add: example_env_def)
  have nx: "croniter_next example_env (ascii ''*/5 * * * *'') 5000000 = Some 65000000"
    by (simp add: example_env_def)
  have gc: "\<not> run cron_args \<and> sch cron_args = Cron (ascii ''*/5 * * * *'')
      \<and> croniter_ok example_env (ascii ''*/5 * * * *'')
      \<and> croniter_next example_env (ascii ''*/5 * * * *'')
            (now example_world + int (took example_env ''bad.yml'' (now example_world)))
          = Some 65000000"
    using ok nx by (simp add: tk) (simp add: cron_args_def example_args_def example_world_def)
  note t2 = failed_acquisition_keeps_schedule [OF h,
      where a = cron_args and expr = "ascii ''*/5 * * * *''" and t = 65000000,
      THEN conjunct2, THEN conjunct2, THEN conjunct1, THEN mp, OF gc]
  have c: "start cron_args example_env ''bad.yml'' example_world =
       Inr \<lparr>now = 5000000,
            jobs = [\<lparr>job_next_run = 65000000, job_period = 60000000\<rparr>],
            runs = [failed_report ''bad.yml'' 0 5000000 (Some 65000000)]\<rparr>"
    unfolding t2 tk by (simp add: example_world_def)
  have z: "rr_stats (failed_report ''bad.yml'' 0 5000000 None) Tagged = 0"
    by (simp add: failed_report_def zero_stats_def)
  have gc': "\<not> run cron_args \<and> sch cron_args = Cron (ascii ''*/5 * * * *'')"
    using gc by blast
  from h g0 ft i ro o gc' ok nx c z show ?thesis by (intro conjI) (elim conjE, assumption)+
qed

text \<open>
  Claim C5.  When the rearming at the end of each run cannot end the process,
  \<^verbatim>\<open>start_loop\<close> returns, and the runs that it adds are one for each configuration file,
  in the order of the files; each of them has the content of a full run of its own file
  at its own start time, whether or not the configuration of another file failed to load.
\<close>

theorem start_loop_runs_every_entry:
  assumes "rearms_ok a e (config_files a) (now w)"
  shows "\<exists>w' rs. start_loop a e w = Inr w' \<and> runs w' = runs w @ rs
           \<and> map rr_config rs = config_files a
           \<and> (\<forall>r\<in>set rs. run_content r = full_run e (rr_config r) (rr_start_time r))"
proof -
  from start_loop_total [OF assms] obtain w' rs where
    "start_loop a e w = Inr w'" "runs w' = runs w @ rs" "map rr_config rs = config_files a"
    "\<forall>r\<in>set rs. now w \<le> rr_start_time r
         \<and> run_content r = full_run e (rr_config r) (rr_start_time r)"
    by blast
  then show ?thesis
    by (intro exI [of _ w'] exI [of _ rs]) simp
qed

text \<open>Three files of which the second does not load: the first and the third run in full.\<close>

theorem start_loop_runs_every_entry_witness:
  "rearms_ok example_args example_env (config_files example_args) (now example_world)
   \<and> (\<exists>w' rs. start_loop example_args example_env example_world = Inr w' \<and> runs w' = rs
        \<and> map rr_config rs = [''a.yml'', ''bad.yml'', ''c.yml'']
        \<and> map rr_loaded rs = [True, False, True]
        \<and> map rr_notified rs = [True, False, True])"
proof -
  have h: "rearms_ok example_args example_env (config_files example_args) (now example_world)"
    by (rule example_rearms) (simp_all add: example_world_def)
  from start_loop_runs_every_entry [OF h] obtain w' rs where
    s: "start_loop example_args example_env example_world = Inr w'"
    and r: "runs w' = runs example_world @ rs"
    and c: "map rr_config rs = config_files example_args"
    and f: "\<forall>r\<in>set rs. run_content r = full_run example_env (rr_config r) (rr_start_time r)"
    by blast
  have l: "rr_loaded r = (rr_config r \<noteq> ''bad.yml'')
         \<and> rr_notified r = (rr_config r \<noteq> ''bad.yml'')" if "r \<in> set rs" for r
    using f that by (auto simp add: run_content_def full_run_def example_env_def Let_def)
  have "map rr_loaded rs = map (\<lambda>f. f \<noteq> ''bad.yml'') (map rr_config rs)"
    using l by (simp add: comp_def)
  then have l1: "map rr_loaded rs = [True, False, True]"
    unfolding c by (simp add: example_args_def)
  have "map rr_notified rs = map (\<lambda>f. f \<noteq> ''bad.yml'') (map rr_config rs)"
    using l by (simp add: comp_def)
  then have l2: "map rr_notified rs = [True, False, True]"
    unfolding c by (simp add: example_args_def)
  have "runs w' = rs" using r by (simp add: example_world_def)
  with s c l1 l2 have "\<exists>w' rs. start_loop example_args example_env example_world = Inr w'
        \<and> runs w' = rs
        \<and> map rr_config rs = [''a.yml'', ''bad.yml'', ''c.yml'']
        \<and> map rr_loaded rs = [True, False, True]
        \<and> map rr_notified rs = [True, False, True]"
    by (intro exI [of _ w'] exI [of _ rs]) (simp add: example_args_def)
  with h show ?thesis by (rule conjI)
qed

subsection \<open>The termination request\<close>

lemma schedule_from_cron_kill_at:
  "schedule_from_cron (e\<lparr>kill_at := k\<rparr>) x w = schedule_from_cron e x w"
  by (simp add: schedule_from_cron_def Let_def split: schedule_arg.splits option.splits)

lemma rearm_kill_at: "rearm a (e\<lparr>kill_at := k\<rparr>) w = rearm a e w"
  by (simp add: rearm_def schedule_from_cron_kill_at)

lemma finished_run_kill_at: "finished_run a (e\<lparr>kill_at := k\<rparr>) w = finished_run a e w"
  by (simp add: finished_run_def rearm_kill_at)

lemma start_kill_at: "start a (e\<lparr>kill_at := k\<rparr>) f w = start a e f w"
  by (simp add: start_def finished_run_kill_at Let_def split: option.splits)

lemma start_each_kill_at: "start_each a (e\<lparr>kill_at := k\<rparr>) fs w = start_each a e fs w"
  by (induction fs arbitrary: w) (simp_all add: start_kill_at split: sum.splits)

lemma start_loop_kill_at: "start_loop a (e\<lparr>kill_at := k\<rparr>) w = start_loop a e w"
  by (simp add: start_loop_def start_kill_at start_each_kill_at)

lemma run_jobs_kill_at: "run_jobs a (e\<lparr>kill_at := k\<rparr>) js w = run_jobs a e js w"
  by (induction js arbitrary: w) (simp_all add: start_loop_kill_at split: sum.splits)

text \<open>
  Claim C8.  What \<^verbatim>\<open>run_pending\<close> does, the runs and the calls of the web hooks in them,
  does not depend on whether or when a termination request arrives.  When the loop finds
  the flag set at its test, it exits with code 0 and leaves the world as it is: no run,
  no rearming.  When the flag is not set at the test and is set after the runs of that
  round and the sleep, the runs have been made in full and the loop exits at the next
  test.
\<close>

theorem shutdown_only_between_runs:
  "run_pending a (e\<lparr>kill_at := k\<rparr>) w = run_pending a e w
   \<and> (kill_now e w \<longrightarrow> poll (Suc n) a e w = Some (SysExit 0, w))
   \<and> (\<not> kill_now e w \<and> run_pending a e w = Inr w1
        \<and> kill_now e (w1\<lparr>now := now w1 + seconds 60 + int (sleep_lag e (now w1))\<rparr>) \<longrightarrow>
        poll (Suc (Suc n)) a e w =
          Some (SysExit 0, w1\<lparr>now := now w1 + seconds 60 + int (sleep_lag e (now w1))\<rparr>))"
  by (simp add: run_pending_def run_jobs_kill_at sleep_def)

text \<open>
  A request at second 67, while the runs that started at second 65 work; and a request
  that is found at the test.
\<close>

theorem shutdown_only_between_runs_witness:
  "\<not> kill_now interrupted_env due_world
   \<and> (\<exists>w1 rs. run_pending example_args interrupted_env due_world = Inr w1
        \<and> runs w1 = rs
        \<and> map rr_config rs = [''a.yml'', ''bad.yml'', ''c.yml'']
        \<and> map rr_notified rs = [True, False, True]
        \<and> kill_now interrupted_env (w1\<lparr>now := now w1 + 60000000\<rparr>)
        \<and> poll 2 example_args interrupted_env due_world =
            Some (SysExit 0, w1\<lparr>now := now w1 + 60000000\<rparr>))
   \<and> kill_now interrupted_env (due_world\<lparr>now := 67000000\<rparr>)
   \<and> poll 1 example_args interrupted_env (due_world\<lparr>now := 67000000\<rparr>) =
       Some (SysExit 0, due_world\<lparr>now := 67000000\<rparr>)"
proof -
  have nk: "\<not> kill_now interrupted_env due_world"
    by (simp add: kill_now_def interrupted_env_def due_world_def)
  have tot: "rearms_ok example_args interrupted_env (config_files example_args) (now due_world)"
    by (rule example_rearms) (simp_all add: due_world_def interrupted_env_def)
  from start_loop_total [OF tot] obtain w1 rs where
    sl: "start_loop example_args interrupted_env due_world = Inr w1"
    and t: "now due_world \<le> now w1" and r: "runs w1 = runs due_world @ rs"
    and c: "map rr_config rs = config_files example_args"
    and al: "\<forall>r\<in>set rs. now due_world \<le> rr_start_time r
         \<and> run_content r = full_run interrupted_env (rr_config r) (rr_start_time r)"
    by blast
  have "run_pending example_args interrupted_env due_world =
      (case start_loop example_args interrupted_env due_world of
         Inl x \<Rightarrow> Inl x | Inr w \<Rightarrow> Inr w)"
    by (simp add: run_pending_def due_world_def split: sum.splits)
  with sl have rp: "run_pending example_args interrupted_env due_world = Inr w1"
    by simp
  have l: "rr_notified x = (rr_config x \<noteq> ''bad.yml'')" if "x \<in> set rs" for x
    using al that example_loaded(2) [where r = x and e = example_env and k = "Some 67000000"]
    by (simp add: interrupted_env_def)
  have "map rr_notified rs = map (\<lambda>f. f \<noteq> ''bad.yml'') (map rr_config rs)"
    using l by (simp add: comp_def)
  then have n: "map rr_notified rs = [True, False, True]"
    unfolding c by (simp add: example_args_def)
  have lag: "seconds 60 + int (sleep_lag interrupted_env (now w1)) = 60000000"
    by (simp add: seconds_def interrupted_env_def example_env_def)
  have k: "kill_now interrupted_env (w1\<lparr>now := now w1 + 60000000\<rparr>)"
    using t by (simp add: kill_now_def interrupted_env_def due_world_def)
  note th = shutdown_only_between_runs [where a = example_args and e = interrupted_env and k = "Some 67000000"
      and w = due_world and n = 0 and ?w1.0 = w1]
  have p: "poll 2 example_args interrupted_env due_world =
            Some (SysExit 0, w1\<lparr>now := now w1 + 60000000\<rparr>)"
    using th [THEN conjunct2, THEN conjunct2] nk rp k
    by (simp add: lag add.assoc numeral_2_eq_2)
  have m: "\<exists>w1 rs. run_pending example_args interrupted_env due_world = Inr w1
        \<and> runs w1 = rs
        \<and> map rr_config rs = [''a.yml'', ''bad.yml'', ''c.yml'']
        \<and> map rr_notified rs = [True, False, True]
        \<and> kill_now interrupted_env (w1\<lparr>now := now w1 + 60000000\<rparr>)
        \<and> poll 2 example_args interrupted_env due_world =
            Some (SysExit 0, w1\<lparr>now := now w1 + 60000000\<rparr>)"
    using rp r c n k p
    by (intro exI [of _ w1] exI [of _ rs]) (simp add: due_world_def example_args_def)
  have k2: "kill_now interrupted_env (due_world\<lparr>now := 67000000\<rparr>)"
    by (simp add: kill_now_def interrupted_env_def)
  from shutdown_only_between_runs [where a = example_args and e = interrupted_env and k = "Some 67000000"
      and w = "due_world\<lparr>now := 67000000\<rparr>" and n = 0,
      THEN conjunct2, THEN conjunct1, THEN mp, OF k2]
  have p2: "poll 1 example_args interrupted_env (due_world\<lparr>now := 67000000\<rparr>) =
       Some (SysExit 0, due_world\<lparr>now := 67000000\<rparr>)"
    by simp
  from nk m k2 p2 show ?thesis by (intro conjI)
qed

subsection \<open>The start-up delay\<close>

text \<open>
  Claim C9.  In interval mode with a start-up delay of \<open>D\<close> seconds, \<open>D\<close> not negative,
  and an interval that fits at entry and at the end of each run of the first round, the
  scheduled branch returns with one run for each configuration file, and none of them
  starts earlier than \<open>D\<close> seconds after the branch was entered.  In cron mode the branch
  only installs the job for the next time that \<^verbatim>\<open>croniter\<close> gives: the clock is where it
  was whatever the start-up delay, and no run has been made.
\<close>

theorem startup_delay_only_for_interval:
  "(\<not> is_valid_cron_syntax (croniter_ok e) (sch a) \<and> sch a = Minutes m
      \<and> 0 \<le> startupDelay a \<and> fits (now w) m
      \<and> rearms_ok a e (config_files a)
           (if startupDelay a \<noteq> 0
            then now w + seconds (startupDelay a) + int (sleep_lag e (now w))
            else now w) \<longrightarrow>
      (\<exists>w' rs. scheduling a e w = Inr w' \<and> runs w' = runs w @ rs
         \<and> map rr_config rs = config_files a
         \<and> (\<forall>r\<in>set rs. now w + seconds (startupDelay a) \<le> rr_start_time r)))
   \<and> (is_valid_cron_syntax (croniter_ok e) (sch a) \<and> sch a = Cron expr
      \<and> croniter_next e expr (now w) = Some t \<longrightarrow>
      scheduling a e w = Inr (w\<lparr>jobs := [\<lparr>job_next_run = t, job_period = t - now w\<rparr>]\<rparr>))"
proof (intro conjI impI)
  assume h: "\<not> is_valid_cron_syntax (croniter_ok e) (sch a) \<and> sch a = Minutes m
      \<and> 0 \<le> startupDelay a \<and> fits (now w) m
      \<and> rearms_ok a e (config_files a)
           (if startupDelay a \<noteq> 0
            then now w + seconds (startupDelay a) + int (sleep_lag e (now w))
            else now w)"
  then have h1: "\<not> is_valid_cron_syntax (croniter_ok e) (sch a)"
    and h2: "sch a = Minutes m" and h3: "0 \<le> startupDelay a" and h4: "fits (now w) m"
    and h5: "rearms_ok a e (config_files a)
           (if startupDelay a \<noteq> 0
            then now w + seconds (startupDelay a) + int (sleep_lag e (now w))
            else now w)"
    by blast+
  define w2 where "w2 =
     (if startupDelay a \<noteq> 0
      then w\<lparr>jobs := [\<lparr>job_next_run = now w + minutes m, job_period = minutes m\<rparr>],
             now := now w + seconds (startupDelay a) + int (sleep_lag e (now w))\<rparr>
      else w\<lparr>jobs := [\<lparr>job_next_run = now w + minutes m, job_period = minutes m\<rparr>]\<rparr>)"
  have s: "scheduling a e w = start_loop a e w2"
    using h1 h2 h3 fits_Some(1) [OF h4]
    by (simp add: w2_def scheduling_def schedule_every_x_minutes_fits [OF h4] sleep_def)
  have n: "now w + seconds (startupDelay a) \<le> now w2"
    by (simp add: w2_def seconds_def)
  have r: "runs w2 = runs w"
    by (simp add: w2_def)
  have tot: "rearms_ok a e (config_files a) (now w2)"
    using h5 by (simp add: w2_def split: if_splits)
  from start_loop_total [OF tot] obtain w' rs where
    sl: "start_loop a e w2 = Inr w'" and rr: "runs w' = runs w2 @ rs"
    and c: "map rr_config rs = config_files a"
    and al: "\<forall>r\<in>set rs. now w2 \<le> rr_start_time r
         \<and> run_content r = full_run e (rr_config r) (rr_start_time r)"
    by blast
  have "now w + seconds (startupDelay a) \<le> rr_start_time x" if "x \<in> set rs" for x
  proof -
    from al that have "now w2 \<le> rr_start_time x" by simp
    with n show ?thesis by (rule order_trans)
  qed
  then have "scheduling a e w = Inr w' \<and> runs w' = runs w @ rs
         \<and> map rr_config rs = config_files a
         \<and> (\<forall>r\<in>set rs. now w + seconds (startupDelay a) \<le> rr_start_time r)"
    using s sl rr r c by simp
  then show "\<exists>w' rs. scheduling a e w = Inr w' \<and> runs w' = runs w @ rs
         \<and> map rr_config rs = config_files a
         \<and> (\<forall>r\<in>set rs. now w + seconds (startupDelay a) \<le> rr_start_time r)"
    by (intro exI [of _ w'] exI [of _ rs])
next
  assume "is_valid_cron_syntax (croniter_ok e) (sch a) \<and> sch a = Cron expr
      \<and> croniter_next e expr (now w) = Some t"
  then have c1: "is_valid_cron_syntax (croniter_ok e) (sch a)"
    and c2: "sch a = Cron expr" and c3: "croniter_next e expr (now w) = Some t"
    by blast+
  from c1 have "scheduling a e w =
      (case schedule_from_cron e (sch a) w of
         Inl x \<Rightarrow> Inl x
       | Inr (w, next_run_time) \<Rightarrow> Inr w)"
    by (simp add: scheduling_def)
  also have "schedule_from_cron e (sch a) w =
      Inr (w\<lparr>jobs := [\<lparr>job_next_run = t, job_period = t - now w\<rparr>]\<rparr>, t)"
    by (simp add: c2 c3 schedule_from_cron_def)
  finally show "scheduling a e w =
      Inr (w\<lparr>jobs := [\<lparr>job_next_run = t, job_period = t - now w\<rparr>]\<rparr>)"
    by simp
qed

text \<open>A delay of thirty seconds, with an interval and with a cron expression.\<close>

theorem startup_delay_only_for_interval_witness:
  "\<not> is_valid_cron_syntax (croniter_ok example_env) (sch delayed_args)
   \<and> sch delayed_args = Minutes 1 \<and> 0 \<le> startupDelay delayed_args
   \<and> fits (now example_world) 1
   \<and> rearms_ok delayed_args example_env (config_files delayed_args) 30000000
   \<and> (\<exists>w' rs. scheduling delayed_args example_env example_world = Inr w' \<and> runs w' = rs
        \<and> map rr_config rs = [''a.yml'', ''bad.yml'', ''c.yml'']
        \<and> list_all (\<lambda>r. 30000000 \<le> rr_start_time r) rs)
   \<and> is_valid_cron_syntax (croniter_ok example_env) (sch cron_args)
   \<and> scheduling cron_args example_env example_world =
       Inr (example_world\<lparr>jobs := [\<lparr>job_next_run = 60000000, job_period = 60000000\<rparr>]\<rparr>)"
proof -
  have h0: "\<not> is_valid_cron_syntax (croniter_ok example_env) (sch delayed_args)
      \<and> sch delayed_args = Minutes 1 \<and> 0 \<le> startupDelay delayed_args"
    using example_interval
    by (simp add: is_valid_cron_syntax_def delayed_args_def example_args_def)
  have ft: "fits (now example_world) 1"
    by (rule fits_example) (simp_all add: example_world_def)
  have "rearms_ok example_args example_env (config_files example_args) 30000000"
    by (rule example_rearms) simp_all
  then have ro: "rearms_ok delayed_args example_env (config_files delayed_args) 30000000"
    by (simp add: delayed_args_def example_args_def rearm_ok_def)
  have t0: "(if startupDelay delayed_args \<noteq> 0
            then now example_world + seconds (startupDelay delayed_args)
                   + int (sleep_lag example_env (now example_world))
            else now example_world) = 30000000"
    by (simp add: delayed_args_def example_args_def example_world_def example_env_def
        seconds_def)
  have h: "\<not> is_valid_cron_syntax (croniter_ok example_env) (sch delayed_args)
      \<and> sch delayed_args = Minutes 1 \<and> 0 \<le> startupDelay delayed_args
      \<and> fits (now example_world) 1
      \<and> rearms_ok delayed_args example_env (config_files delayed_args)
           (if startupDelay delayed_args \<noteq> 0
            then now example_world + seconds (startupDelay delayed_args)
                   + int (sleep_lag example_env (now example_world))
            else now example_world)"
    unfolding t0 using h0 ft ro by (intro conjI) (elim conjE, assumption)+
  from startup_delay_only_for_interval [where e = example_env and a = delayed_args and m = 1 and w = example_world,
      THEN conjunct1, THEN mp, OF h]
  obtain w' rs where s: "scheduling delayed_args example_env example_world = Inr w'"
    and r: "runs w' = runs example_world @ rs"
    and c: "map rr_config rs = config_files delayed_args"
    and al: "\<forall>r\<in>set rs. now example_world + seconds (startupDelay delayed_args)
               \<le> rr_start_time r"
    by blast
  from al have "list_all (\<lambda>r. 30000000 \<le> rr_start_time r) rs"
    by (simp add: list_all_iff example_world_def delayed_args_def seconds_def)
  with s r c have x: "\<exists>w' rs. scheduling delayed_args example_env example_world = Inr w'
        \<and> runs w' = rs
        \<and> map rr_config rs = [''a.yml'', ''bad.yml'', ''c.yml'']
        \<and> list_all (\<lambda>r. 30000000 \<le> rr_start_time r) rs"
    by (intro exI [of _ w'] exI [of _ rs])
       (simp add: example_world_def delayed_args_def example_args_def)
  have v: "is_valid_cron_syntax (croniter_ok example_env) (sch cron_args)"
    using cron_5 by (simp add: is_valid_cron_syntax_def cron_args_def example_env_def)
  have g: "is_valid_cron_syntax (croniter_ok example_env) (sch cron_args)
      \<and> sch cron_args = Cron (ascii ''*/5 * * * *'')
      \<and> croniter_next example_env (ascii ''*/5 * * * *'') (now example_world) = Some 60000000"
    using v by (simp add: cron_args_def example_env_def example_world_def)
  from startup_delay_only_for_interval [where e = example_env and a = cron_args and w = example_world
      and expr = "ascii ''*/5 * * * *''" and t = 60000000,
      THEN conjunct2, THEN mp, OF g]
  have y: "scheduling cron_args example_env example_world =
       Inr (example_world\<lparr>jobs := [\<lparr>job_next_run = 60000000, job_period = 60000000\<rparr>]\<rparr>)"
    by (simp add: example_world_def)
  from h0 ft ro x v y show ?thesis by (intro conjI) (elim conjE, assumption)+
qed

end
